theory Spec2Isabelle
  imports Main "HOL-Library.Sublist"
begin

section \<open>JavaScript strings\<close>

text \<open>
  A JavaScript string is a sequence of UTF-16 code units; \<open>length\<close>, \<open>substring\<close>,
  \<open>indexOf\<close> and \<open>includes\<close> all count code units. The messages and markers of the
  program are Chinese text, so a string is modelled as the list of its code units and
  the literals of the source are written out as numbers (ASCII literals through \<open>js\<close>).
\<close>

type_synonym jstring = "nat list"

definition js :: "string \<Rightarrow> jstring" where
  "js s = map of_char s"

text \<open>\<open>!s\<close> is false exactly for a non-empty string; an absent value is falsy.\<close>

definition truthy :: "jstring option \<Rightarrow> bool" where
  "truthy v = (case v of None \<Rightarrow> False | Some s \<Rightarrow> s \<noteq> [])"

text \<open>White space and line terminators: what \<open>String.prototype.trim\<close> strips and the
  regular expression class \<open>\s\<close> matches.\<close>

definition is_ws :: "nat \<Rightarrow> bool" where
  "is_ws c = (c \<in> {0x9, 0xA, 0xB, 0xC, 0xD, 0x20, 0xA0, 0x1680, 0x2028, 0x2029,
                    0x202F, 0x205F, 0x3000, 0xFEFF} \<or> (0x2000 \<le> c \<and> c \<le> 0x200A))"

definition trim :: "jstring \<Rightarrow> jstring" where
  "trim s = rev (dropWhile is_ws (rev (dropWhile is_ws s)))"

text \<open>\<open>s.includes(sub)\<close>: \<open>sub\<close> occurs in \<open>s\<close> as a contiguous run.\<close>

fun js_includes :: "jstring \<Rightarrow> jstring \<Rightarrow> bool" where
  "js_includes [] sub = (sub = [])"
| "js_includes (c # s) sub = (prefix sub (c # s) \<or> js_includes s sub)"

text \<open>\<open>s.indexOf(c)\<close> for a one-unit needle; \<open>None\<close> stands for \<open>-1\<close>.\<close>

definition indexOf :: "jstring \<Rightarrow> nat \<Rightarrow> nat option" where
  "indexOf s c = (if c \<in> set s then Some (length (takeWhile (\<lambda>x. x \<noteq> c) s)) else None)"

text \<open>\<open>s.substring(0, n)\<close>.\<close>

definition substring0 :: "jstring \<Rightarrow> nat \<Rightarrow> jstring" where
  "substring0 s n = take n s"

text \<open>\<open>s.split(sep)[0]\<close>: everything before the first separator.\<close>

definition split_head :: "nat \<Rightarrow> jstring \<Rightarrow> jstring" where
  "split_head sep s = takeWhile (\<lambda>c. c \<noteq> sep) s"

text \<open>\<open>s.split(sep)[1]\<close>: the segment between the first and the second separator,
  undefined when there is no separator.\<close>

definition split_second :: "nat \<Rightarrow> jstring \<Rightarrow> jstring option" where
  "split_second sep s =
     (case dropWhile (\<lambda>c. c \<noteq> sep) s of
        [] \<Rightarrow> None
      | _ # r \<Rightarrow> Some (takeWhile (\<lambda>c. c \<noteq> sep) r))"

text \<open>The last element of \<open>s.split(sep)\<close>.\<close>

definition split_last :: "nat \<Rightarrow> jstring \<Rightarrow> jstring" where
  "split_last sep s = rev (takeWhile (\<lambda>c. c \<noteq> sep) (rev s))"

text \<open>\<open>xs.join(sep)\<close>.\<close>

fun join :: "jstring \<Rightarrow> jstring list \<Rightarrow> jstring" where
  "join sep [] = []"
| "join sep [x] = x"
| "join sep (x # y # ys) = x @ sep @ join sep (y # ys)"

text \<open>\<open>s.replace(sub, '')\<close> with a string pattern: the first occurrence is removed.\<close>

fun remove_first :: "jstring \<Rightarrow> jstring \<Rightarrow> jstring" where
  "remove_first sub [] = []"
| "remove_first sub (c # s) =
     (if prefix sub (c # s) then drop (length sub) (c # s) else c # remove_first sub s)"

text \<open>Decimal rendering of a non-negative integer inside a template literal.\<close>

fun digits :: "nat \<Rightarrow> jstring" where
  "digits n = (if n < 10 then [48 + n] else digits (n div 10) @ [48 + n mod 10])"

declare digits.simps [simp del]

section \<open>Sandbox acquisition: \<open>getCookies\<close> (src/src/cookieGetter.js, lines 18 to 357)\<close>

text \<open>The object \<open>result\<close> that every path passes to \<open>resolve\<close>.\<close>

record credentials =
  js1key :: "jstring option"
  pow :: "jstring option"

definition no_credentials :: credentials where
  "no_credentials = \<lparr>js1key = None, pow = None\<rparr>"

text \<open>The call sites of \<open>resolve(result)\<close>: the inner catch of the file read, the outer
  catch before and after the timers are armed, the cookie setter, and the two timer
  callbacks.\<close>

datatype trigger =
  ReadFailure | SetupFailure | BodyFailure | CredentialsObserved | PrimaryTimeout | BackupTimeout

text \<open>
  A promise settles at the first call of \<open>resolve\<close>; later calls do nothing to it. The
  settlement records the time of that call and its call site. It records no value: the
  promise is fulfilled with the object \<open>result\<close> itself, which the setter can still assign
  afterwards, so what the awaiting caller gets is what the fields of \<open>result\<close> hold when
  the caller's continuation runs.
\<close>

record settlement =
  settled_at :: nat
  settled_by :: trigger

text \<open>
  The state the closures of \<open>getCookies\<close> share, and what the caller and the event loop
  add to it: the object \<open>cookies\<close>; the object \<open>result\<close>; the two timers (true while
  armed: neither fired nor cleared); the promise; the number of calls of \<open>resolve\<close> so
  far; the number of jobs of the script that are queued ahead of the continuation of the
  awaiting caller; the fields the caller read from \<open>result\<close> when its continuation ran
  (\<open>None\<close>: it has not run); whether a job of the script holds the thread for ever; and
  the clock, in milliseconds since the timers were armed (since the call, on the paths
  that end before).
\<close>

record acquisition =
  cookies :: "jstring \<rightharpoonup> jstring"
  result :: credentials
  timeoutTimer :: bool
  backupTimer :: bool
  promise :: "settlement option"
  resolve_calls :: nat
  ahead :: nat
  delivered :: "credentials option"
  held :: bool
  clock :: nat

definition initial :: "nat \<Rightarrow> acquisition" where
  "initial n = \<lparr>cookies = Map.empty, result = no_credentials, timeoutTimer = False,
                backupTimer = False, promise = None, resolve_calls = 0, ahead = n,
                delivered = None, held = False, clock = 0\<rparr>"

definition resolve :: "trigger \<Rightarrow> acquisition \<Rightarrow> acquisition" where
  "resolve tr s =
     s\<lparr>promise := (case promise s of
                     None \<Rightarrow> Some \<lparr>settled_at = clock s, settled_by = tr\<rparr>
                   | Some p \<Rightarrow> Some p),
       resolve_calls := Suc (resolve_calls s)\<rparr>"

text \<open>
  The first half of the setter of \<open>document.cookie\<close>: \<open>[pair] = cookieString.split(";")\<close>,
  \<open>[key, value] = pair.split("=")\<close>, and the test \<open>key && value\<close> made before trimming.
\<close>

definition parse_pair :: "jstring \<Rightarrow> (jstring \<times> jstring) option" where
  "parse_pair cookieString =
     (let pair = split_head 0x3B cookieString in
      if pair = [] then None
      else let key = split_head 0x3D pair; value = split_second 0x3D pair in
        if key \<noteq> [] \<and> truthy value then Some (trim key, trim (the value)) else None)"

text \<open>
  The setter. When both names are stored it assigns the two fields of \<open>result\<close>, clears
  both timers and calls \<open>resolve\<close>; it makes no test of whether it has done so before.
  The calls of \<open>window.close()\<close> between (lines 256 to 272) do not end the script that is
  executing the assignment: the setter returns into it.
\<close>

definition cookie_setter :: "jstring \<Rightarrow> acquisition \<Rightarrow> acquisition" where
  "cookie_setter cookieString s =
     (case parse_pair cookieString of
        None \<Rightarrow> s
      | Some (cookieName, cookieValue) \<Rightarrow>
          let s1 = s\<lparr>cookies := (cookies s)(cookieName \<mapsto> cookieValue)\<rparr> in
          if truthy (cookies s1 (js ''js1key'')) \<and> truthy (cookies s1 (js ''pow''))
          then resolve CredentialsObserved
                 (s1\<lparr>result := \<lparr>js1key = cookies s1 (js ''js1key''),
                                  pow = cookies s1 (js ''pow'')\<rparr>,
                      backupTimer := False, timeoutTimer := False\<rparr>)
          else s1)"

text \<open>The callback of \<open>timeoutTimer\<close>: clean-up inside its own try/catch, then
  \<open>resolve(result)\<close>. It does not clear \<open>backupTimer\<close>.\<close>

definition timeoutTimer_callback :: "acquisition \<Rightarrow> acquisition" where
  "timeoutTimer_callback s = resolve PrimaryTimeout (s\<lparr>timeoutTimer := False\<rparr>)"

text \<open>The callback of \<open>backupTimer\<close>: \<open>clearTimeout(timeoutTimer)\<close>, clean-up, then
  \<open>resolve(result)\<close>.\<close>

definition backupTimer_callback :: "acquisition \<Rightarrow> acquisition" where
  "backupTimer_callback s =
     resolve BackupTimeout (s\<lparr>backupTimer := False, timeoutTimer := False\<rparr>)"

text \<open>
  The caller is suspended at \<open>await getCookies(...)\<close> and reads \<open>js1key\<close> and \<open>pow\<close> from
  the object it gets as soon as it is resumed. Its continuation is a job of the microtask
  queue: it runs after the job in which \<open>resolve\<close> was first called, behind the jobs of
  the script that are ahead of it in the queue, and at the latest when the queue is
  empty, which is before the thread is free for a timer or another task.
\<close>

definition deliver :: "acquisition \<Rightarrow> acquisition" where
  "deliver s = s\<lparr>delivered := Some (result s)\<rparr>"

definition end_of_job :: "acquisition \<Rightarrow> acquisition" where
  "end_of_job s =
     (if promise s \<noteq> None \<and> delivered s = None
      then (if ahead s = 0 then deliver s else s\<lparr>ahead := ahead s - 1\<rparr>)
      else s)"

definition end_of_task :: "acquisition \<Rightarrow> acquisition" where
  "end_of_task s = (if promise s \<noteq> None \<and> delivered s = None then deliver s else s)"

text \<open>
  The event loop while the thread is free from the present moment until \<open>t\<close>: every armed
  timer whose delay (15000 ms, 20000 ms) has passed by \<open>t\<close> runs, the one set first
  first, each at the first free moment at which it is due. A timer callback is a task of
  its own. Nothing but the script and the two timers is taken to use the thread.
\<close>

definition free_until :: "nat \<Rightarrow> acquisition \<Rightarrow> acquisition" where
  "free_until t s =
     (let s1 = (if timeoutTimer s \<and> 15000 \<le> t
                then end_of_task (timeoutTimer_callback (s\<lparr>clock := max 15000 (clock s)\<rparr>))
                else s);
          s2 = (if backupTimer s1 \<and> 20000 \<le> t
                then end_of_task (backupTimer_callback (s1\<lparr>clock := max 20000 (clock s1)\<rparr>))
                else s1)
      in s2\<lparr>clock := max t (clock s2)\<rparr>)"

text \<open>
  The rewriting of the script text, the canvas stubs and the navigator fields change what
  the injected script does; here that behaviour is an input. A job of the script is a
  stretch of its code that runs without yielding the thread: the cookie writes it makes,
  each with the time the job has run since the previous one, and how it ends, by
  returning after some further time or never. Nothing pre-empts a job: no timer callback
  and no continuation runs before it returns.
\<close>

datatype ending = Returns nat | Hangs

record job =
  writes :: "(nat \<times> jstring) list"
  ending :: ending

text \<open>A task of the script: the time the thread is free before it starts, and its
  jobs, the task's own code first and then the microtasks it leaves.\<close>

type_synonym task = "nat \<times> job list"

fun run_writes :: "acquisition \<Rightarrow> (nat \<times> jstring) list \<Rightarrow> acquisition" where
  "run_writes s [] = s"
| "run_writes s ((d, w) # ws) = run_writes (cookie_setter w (s\<lparr>clock := clock s + d\<rparr>)) ws"

fun run_jobs :: "acquisition \<Rightarrow> job list \<Rightarrow> acquisition" where
  "run_jobs s [] = s"
| "run_jobs s (j # jobs) =
     (let s1 = run_writes s (writes j) in
      case ending j of
        Hangs \<Rightarrow> s1\<lparr>held := True\<rparr>
      | Returns d \<Rightarrow> run_jobs (end_of_job (s1\<lparr>clock := clock s1 + d\<rparr>)) jobs)"

text \<open>After the last task of the script the thread stays free, and every timer still
  armed runs.\<close>

fun run_tasks :: "acquisition \<Rightarrow> task list \<Rightarrow> acquisition" where
  "run_tasks s [] = free_until (max (clock s) 20000) s"
| "run_tasks s ((idle, jobs) # ts) =
     (let s1 = run_jobs (free_until (clock s + idle) s) jobs in
      if held s1 then s1 else run_tasks (end_of_task s1) ts)"

text \<open>
  What the environment decides in a call of \<open>getCookies\<close>: whether \<open>readFileSync\<close>
  returns the script (\<open>None\<close>: it throws); whether a statement of the try block throws
  before the timers are armed; the job the injected script makes of the executor when
  \<open>appendChild\<close> runs it (line 345); whether a statement after that throws; the
  microtasks the script leaves in the executor's task; the later tasks of the script, as
  many as it runs until both timers have fired or been cleared and the caller has been
  resumed; and the number of jobs of the script that run between the first call of
  \<open>resolve\<close> and the continuation of the caller.
\<close>

record sandbox_env =
  raw_js :: "jstring option"
  setup_throws :: bool
  injected :: job
  inject_throws :: bool
  microtasks :: "job list"
  later_tasks :: "task list"
  jobs_ahead :: nat

text \<open>The state once both \<open>setTimeout\<close> calls have been made.\<close>

definition armed :: "nat \<Rightarrow> acquisition" where
  "armed n = (initial n)\<lparr>timeoutTimer := True, backupTimer := True\<rparr>"

text \<open>
  The value is the state in which the call leaves the program for good. A promise that
  is \<open>None\<close> there is never settled, and a \<open>delivered\<close> that is \<open>None\<close> there means the
  caller is never resumed.
\<close>

definition getCookies :: "jstring \<Rightarrow> jstring \<Rightarrow> bool \<Rightarrow> sandbox_env \<Rightarrow> acquisition" where
  "getCookies x1 difficulty isVerbose env =
     (case raw_js env of
        None \<Rightarrow> end_of_task (resolve ReadFailure (initial (jobs_ahead env)))
      | Some jsCode \<Rightarrow>
          if setup_throws env then end_of_task (resolve SetupFailure (initial (jobs_ahead env)))
          else
            let s1 = run_writes (armed (jobs_ahead env)) (writes (injected env)) in
            (case ending (injected env) of
               Hangs \<Rightarrow> s1\<lparr>held := True\<rparr>
             | Returns d \<Rightarrow>
                 let s2 = s1\<lparr>clock := clock s1 + d\<rparr>;
                     s3 = (if inject_throws env then resolve BodyFailure s2 else s2);
                     s4 = run_jobs (end_of_job s3) (microtasks env)
                 in if held s4 then s4 else run_tasks (end_of_task s4) (later_tasks env)))"








text \<open>A job that makes the given writes one after the other and returns after \<open>d\<close>
  milliseconds, and a sandbox whose script file is read, whose set-up and injection
  raise nothing, and whose script runs the given job at injection and the given tasks
  later.\<close>

definition writing :: "jstring list \<Rightarrow> nat \<Rightarrow> job" where
  "writing ws d = \<lparr>writes = map (Pair 0) ws, ending = Returns d\<rparr>"

definition sandbox_with :: "job \<Rightarrow> task list \<Rightarrow> sandbox_env" where
  "sandbox_with j ts =
     \<lparr>raw_js = Some (js ''void 0;''), setup_throws = False, injected = j,
      inject_throws = False, microtasks = [], later_tasks = ts, jobs_ahead = 0\<rparr>"

text \<open>A sandbox whose script file cannot be read.\<close>

definition unread :: sandbox_env where
  "unread = (sandbox_with (writing [] 0) [])\<lparr>raw_js := None\<rparr>"

text \<open>
  Invariant of every reachable state: while the promise is pending \<open>result\<close> is still
  empty, both timers are armed and the caller has not been resumed; once the setter has
  settled the promise both fields of \<open>result\<close> are non-empty, and so are those the caller
  has read; and when the promise was settled for a failure to read the script, for a
  failure of the set-up or by a timer, the caller has read two nulls.
\<close>

definition sound :: "acquisition \<Rightarrow> bool" where
  "sound s =
     ((promise s = None \<longrightarrow>
         result s = no_credentials \<and> timeoutTimer s \<and> backupTimer s \<and> delivered s = None) \<and>
      (\<forall>p. promise s = Some p \<longrightarrow>
         (settled_by p = CredentialsObserved \<longrightarrow>
            truthy (js1key (result s)) \<and> truthy (pow (result s)) \<and>
            (\<forall>c. delivered s = Some c \<longrightarrow> truthy (js1key c) \<and> truthy (pow c))) \<and>
         (settled_by p \<noteq> CredentialsObserved \<and> settled_by p \<noteq> BodyFailure \<longrightarrow>
            delivered s = Some no_credentials)))"

text \<open>The states between two tasks: the microtask queue is empty, so the caller has been
  resumed if the promise is settled. No job holds the thread.\<close>

definition between_tasks :: "acquisition \<Rightarrow> bool" where
  "between_tasks s = (sound s \<and> \<not> held s \<and> (promise s \<noteq> None \<longrightarrow> delivered s \<noteq> None))"

text \<open>
  Invariant of the runs in which neither required name is ever stored: \<open>result\<close> stays
  empty, and the promise is pending with both timers armed or has been settled by the
  primary timer, at a time from 15000 ms on and at most \<open>b\<close> ms later, the caller
  having read two nulls.
\<close>

definition quiet :: "nat \<Rightarrow> acquisition \<Rightarrow> bool" where
  "quiet b s =
     (cookies s (js ''js1key'') = None \<and> cookies s (js ''pow'') = None \<and>
      result s = no_credentials \<and> \<not> held s \<and>
      (promise s = None \<and> delivered s = None \<and> timeoutTimer s \<and> backupTimer s \<or>
       (\<exists>p. promise s = Some p \<and> settled_by p = PrimaryTimeout \<and> 15000 \<le> settled_at p \<and>
            settled_at p \<le> 15000 + b \<and> delivered s = Some no_credentials \<and>
            \<not> timeoutTimer s)))"

section \<open>Parameter resolver and script source (src/src/utils/parser.js, lines 473 to 605)\<close>

definition is_quote :: "nat \<Rightarrow> bool" where
  "is_quote c = (c = 0x27 \<or> c = 0x22)"

text \<open>
  The tail \<open>\s*=\s*['"]([^'"]+)['"]\<close> of the two regular expressions of
  \<open>fetchHomePage\<close>, matched at the start of \<open>s\<close>: the text of group 1. Each greedy
  star is followed by a character outside its class, so there is one way to match.
\<close>

definition match_quoted_value :: "jstring \<Rightarrow> jstring option" where
  "match_quoted_value s =
     (case dropWhile is_ws s of
        [] \<Rightarrow> None
      | e # r \<Rightarrow>
          if e \<noteq> 0x3D then None
          else (case dropWhile is_ws r of
                  [] \<Rightarrow> None
                | q # v \<Rightarrow>
                    if \<not> is_quote q then None
                    else if takeWhile (\<lambda>c. \<not> is_quote c) v \<noteq> [] \<and>
                            dropWhile (\<lambda>c. \<not> is_quote c) v \<noteq> []
                    then Some (takeWhile (\<lambda>c. \<not> is_quote c) v)
                    else None))"

text \<open>\<open>s.match(/name\s*=\s*['"]([^'"]+)['"]/)\<close>: group 1 of the leftmost match.\<close>

fun match_assignment :: "jstring \<Rightarrow> jstring \<Rightarrow> jstring option" where
  "match_assignment name [] = None"
| "match_assignment name (c # s) =
     (case (if prefix name (c # s) then match_quoted_value (drop (length name) (c # s))
            else None) of
        Some v \<Rightarrow> Some v
      | None \<Rightarrow> match_assignment name s)"

text \<open>A \<open>script\<close> element as the two loops read it: \<open>attr('src')\<close> and \<open>html()\<close>
  (the empty string for an element without content).\<close>

record script_element =
  src :: "jstring option"
  content :: jstring

text \<open>The entry page: the response body and the \<open>script\<close> elements cheerio finds in it,
  in document order.\<close>

record home_page =
  page_html :: jstring
  page_scripts :: "script_element list"

record challenge_parameters =
  html_of :: jstring
  x1 :: jstring
  difficulty :: jstring
  scriptUrl :: jstring

text \<open>\<open>MissingParameters\<close> is the error thrown at line 522; \<open>RequestFailed\<close> is an error
  of axios and \<open>FileError\<close> one of the file system, both passed on as they are.\<close>

datatype fetch_error = MissingParameters | RequestFailed jstring | FileError

text \<open>The body of the first loop over the \<open>script\<close> elements (lines 491 to 506).\<close>

definition scan_globals :: "script_element \<Rightarrow> jstring \<times> jstring \<Rightarrow> jstring \<times> jstring" where
  "scan_globals element acc =
     (let scriptContent = content element in
      if scriptContent \<noteq> [] \<and> js_includes scriptContent (js ''window.x1'')
      then (case match_assignment (js ''window.x1'') scriptContent of
              Some v \<Rightarrow> v
            | None \<Rightarrow> fst acc,
            case match_assignment (js ''window.difficulty'') scriptContent of
              Some v \<Rightarrow> v
            | None \<Rightarrow> snd acc)
      else acc)"

text \<open>The body of the second loop (lines 510 to 515).\<close>

definition scan_src :: "script_element \<Rightarrow> jstring \<Rightarrow> jstring" where
  "scan_src element url =
     (if truthy (src element) \<and> js_includes (the (src element)) (js ''/static/js/'')
      then the (src element) else url)"

definition fetchHomePage :: "bool \<Rightarrow> jstring + home_page \<Rightarrow> fetch_error + challenge_parameters" where
  "fetchHomePage isVerbose response =
     (case response of
        Inl err \<Rightarrow> Inl (RequestFailed err)
      | Inr page \<Rightarrow>
          let globals = fold scan_globals (page_scripts page) ([], []);
              found = fold scan_src (page_scripts page) [];
              url = (if \<not> prefix (js ''http'') found then js ''https://ping0.cc'' @ found
                     else found)
          in if fst globals = [] \<or> snd globals = [] \<or> url = [] then Inl MissingParameters
             else Inr \<lparr>html_of = page_html page, x1 = fst globals, difficulty = snd globals,
                       scriptUrl = url\<rparr>)"

text \<open>
  The world of the script source: the file \<open>raw.js\<close> of the working directory
  (\<open>None\<close>: it does not exist), whether reading or writing it throws, and the URLs the
  script has been requested from so far.
\<close>

record script_store =
  raw_js_file :: "jstring option"
  read_throws :: bool
  write_throws :: bool
  requested :: "jstring list"

text \<open>The network: the answer to the GET of the entry page, and to the GET of a script
  URL (\<open>Inl\<close>: axios throws).\<close>

record network =
  home :: "jstring + home_page"
  script_at :: "jstring \<Rightarrow> jstring + jstring"

definition fetchAndSaveScript ::
  "jstring \<Rightarrow> bool \<Rightarrow> network \<Rightarrow> script_store \<Rightarrow> (fetch_error + jstring) \<times> script_store" where
  "fetchAndSaveScript url isVerbose net st =
     (let st1 = st\<lparr>requested := requested st @ [url]\<rparr> in
      case script_at net url of
        Inl err \<Rightarrow> (Inl (RequestFailed err), st1)
      | Inr jsContent \<Rightarrow>
          if write_throws st1 then (Inl FileError, st1)
          else (Inr jsContent, st1\<lparr>raw_js_file := Some jsContent\<rparr>))"

record script_result =
  jsContent :: jstring
  x1_of :: jstring
  difficulty_of :: jstring

definition checkAndUpdateRawJs ::
  "bool \<Rightarrow> bool \<Rightarrow> network \<Rightarrow> script_store \<Rightarrow> (fetch_error + script_result) \<times> script_store" where
  "checkAndUpdateRawJs forceUpdate isVerbose net st =
     (case fetchHomePage isVerbose (home net) of
        Inl err \<Rightarrow> (Inl err, st)
      | Inr p \<Rightarrow>
          let rawJsExists = (raw_js_file st \<noteq> None);
              packed = (\<lambda>(fetched, st1).
                 (case fetched of
                    Inl err \<Rightarrow> Inl err
                  | Inr text \<Rightarrow>
                      Inr \<lparr>jsContent = text, x1_of = x1 p, difficulty_of = difficulty p\<rparr>,
                  st1))
          in if forceUpdate then packed (fetchAndSaveScript (scriptUrl p) isVerbose net st)
             else if \<not> rawJsExists then
               packed (fetchAndSaveScript (scriptUrl p) isVerbose net st)
             else if read_throws st then (Inl FileError, st)
             else (Inr \<lparr>jsContent = the (raw_js_file st), x1_of = x1 p,
                         difficulty_of = difficulty p\<rparr>, st))"

section \<open>Query and extraction (src/src/utils/parser.js, lines 20 to 426)\<close>

subsection \<open>The literals of the extraction\<close>

text \<open>The marker \<open>system error occurred\<close> (parser.js, lines 191, 200, 227).\<close>

definition marker_system_error :: jstring where
  "marker_system_error =
     [0x7CFB, 0x7EDF, 0x53D1, 0x751F, 0x9519, 0x8BEF]"

text \<open>The marker \<open>access frequency too high\<close> (line 225).\<close>

definition marker_rate_limited :: jstring where
  "marker_rate_limited =
     [0x8BBF, 0x95EE, 0x9891, 0x7387, 0x8FC7, 0x9AD8]"

text \<open>The marker \<open>cannot be accessed\<close> (line 229).\<close>

definition marker_unreachable :: jstring where
  "marker_unreachable =
     [0x65E0, 0x6CD5, 0x8BBF, 0x95EE]"

text \<open>The marker \<open>this IP cannot be found\<close> (line 231).\<close>

definition marker_ip_not_found :: jstring where
  "marker_ip_not_found =
     [0x67E5, 0x8BE2, 0x4E0D, 0x5230, 0x6B64] @ js ''IP''"

text \<open>The marker \<open>access denied\<close> (line 233).\<close>

definition marker_access_denied :: jstring where
  "marker_access_denied =
     [0x8BBF, 0x95EE, 0x88AB, 0x62D2, 0x7EDD]"

text \<open>The marker \<open>robot\<close> in Chinese (line 235); the other one is the ASCII word \<open>robots\<close>.\<close>

definition marker_robot :: jstring where
  "marker_robot =
     [0x673A, 0x5668, 0x4EBA]"

text \<open>Message of line 187: the HTML content is empty.\<close>

definition msg_html_empty :: jstring where
  "msg_html_empty =
     js ''HTML'' @ [0x5185, 0x5BB9, 0x4E3A, 0x7A7A]"

text \<open>Message of line 192: the site returned an error.\<close>

definition msg_site_error :: jstring where
  "msg_site_error =
     [0x7F51, 0x7AD9, 0x8FD4, 0x56DE, 0x9519, 0x8BEF] @ js '': '' @
     [0x7CFB, 0x7EDF, 0x53D1, 0x751F, 0x9519, 0x8BEF]"

text \<open>Prefix of the message of line 201: the site returned an error page, then the title.\<close>

definition msg_error_page :: jstring where
  "msg_error_page =
     [0x7F51, 0x7AD9, 0x8FD4, 0x56DE, 0x9519, 0x8BEF, 0x9875, 0x9762] @ js '': ''"

text \<open>Message of line 226: rate limited.\<close>

definition msg_rate_limited :: jstring where
  "msg_rate_limited =
     [0x8BBF, 0x95EE, 0x9891, 0x7387, 0x8FC7, 0x9AD8, 0xFF0C, 0x8BF7] @
     [0x7A0D, 0x540E, 0x518D, 0x8BD5]"

text \<open>Message of line 228: internal system error.\<close>

definition msg_system_error :: jstring where
  "msg_system_error =
     [0x7F51, 0x7AD9, 0x7CFB, 0x7EDF, 0x9519, 0x8BEF, 0xFF0C, 0x8BF7] @
     [0x7A0D, 0x540E, 0x518D, 0x8BD5]"

text \<open>Message of line 230: the site is unreachable.\<close>

definition msg_unreachable :: jstring where
  "msg_unreachable =
     [0x7F51, 0x7AD9, 0x65E0, 0x6CD5, 0x8BBF, 0x95EE, 0xFF0C, 0x53EF] @
     [0x80FD, 0x4E34, 0x65F6, 0x7EF4, 0x62A4, 0x4E2D]"

text \<open>Message of line 232: no information for this IP.\<close>

definition msg_ip_not_found :: jstring where
  "msg_ip_not_found =
     [0x67E5, 0x8BE2, 0x4E0D, 0x5230, 0x6B64] @ js ''IP'' @
     [0x4FE1, 0x606F, 0xFF0C, 0x53EF, 0x80FD, 0x662F, 0x65E0, 0x6548] @ js ''IP'' @
     [0x6216, 0x79C1, 0x6709] @ js ''IP''"

text \<open>Message of line 234: access denied.\<close>

definition msg_access_denied :: jstring where
  "msg_access_denied =
     [0x8BBF, 0x95EE, 0x88AB, 0x62D2, 0x7EDD, 0xFF0C, 0x53EF, 0x80FD] @ [0x662F] @
     js ''Cookie'' @ [0x5DF2, 0x5931, 0x6548]"

text \<open>Message of line 236: recognised as a robot or crawler.\<close>

definition msg_robot :: jstring where
  "msg_robot =
     [0x88AB, 0x7F51, 0x7AD9, 0x8BC6, 0x522B, 0x4E3A, 0x673A, 0x5668] @
     [0x4EBA, 0x6216, 0x722C, 0x866B, 0xFF0C, 0x8BF7, 0x7A0D, 0x540E] @ [0x518D, 0x8BD5]"

text \<open>Message of line 238, up to the length of the body text.\<close>

definition msg_short_page_a :: jstring where
  "msg_short_page_a =
     [0x9875, 0x9762, 0x5185, 0x5BB9, 0x5F02, 0x5E38] @ js ''('' @
     [0x5185, 0x5BB9, 0x957F, 0x5EA6] @ js '': ''"

text \<open>Message of line 238, between the length and the excerpt.\<close>

definition msg_short_page_b :: jstring where
  "msg_short_page_b =
     js '')'' @ [0xFF0C, 0x5185, 0x5BB9] @ js '': '' @ [0x22]"

text \<open>Message of line 246, up to the text of the error element.\<close>

definition msg_error_text :: jstring where
  "msg_error_text =
     [0x7F51, 0x7AD9, 0x8FD4, 0x56DE, 0x9519, 0x8BEF, 0x4FE1, 0x606F] @ js '': '' @ [0x22]"

text \<open>Message of line 249, up to the title.\<close>

definition msg_title_a :: jstring where
  "msg_title_a =
     [0x9875, 0x9762, 0x6807, 0x9898, 0x5F02, 0x5E38] @ js '': '' @ [0x22]"

text \<open>Message of line 249, between the title and the excerpt.\<close>

definition msg_title_b :: jstring where
  "msg_title_b =
     [0x22, 0xFF0C, 0x9875, 0x9762, 0x5185, 0x5BB9] @ js '': '' @ [0x22]"

text \<open>Message of line 251, up to the heading text.\<close>

definition msg_h1_a :: jstring where
  "msg_h1_a =
     [0x9875, 0x9762, 0x5185, 0x5BB9, 0x5F02, 0x5E38, 0xFF0C] @ js ''H1'' @ [0x6587, 0x672C] @
     js '': '' @ [0x22]"

text \<open>Message of line 251, between the heading text and the excerpt.\<close>

definition msg_h1_b :: jstring where
  "msg_h1_b =
     [0x22, 0xFF0C, 0x9875, 0x9762, 0x6458, 0x8981] @ js '': '' @ [0x22]"

text \<open>Message of line 253, up to the excerpt.\<close>

definition msg_no_ip :: jstring where
  "msg_no_ip =
     [0x65E0, 0x6CD5, 0x4ECE, 0x9875, 0x9762, 0x63D0, 0x53D6] @ js ''IP'' @
     [0x4FE1, 0x606F, 0xFF0C, 0x9875, 0x9762, 0x5185, 0x5BB9] @ js '': '' @ [0x22]"

text \<open>The artefact string \<open>submit an error\<close> removed from the location text (line 268).\<close>

definition error_submit :: jstring where
  "error_submit =
     [0x9519, 0x8BEF, 0x63D0, 0x4EA4]"

text \<open>The row label \<open>longitude\<close> (line 372).\<close>

definition label_longitude :: jstring where
  "label_longitude =
     [0x7ECF, 0x5EA6]"

text \<open>The row label \<open>latitude\<close> (line 384).\<close>

definition label_latitude :: jstring where
  "label_latitude =
     [0x7EAC, 0x5EA6]"

text \<open>The fixed value of the field \<open>princess\<close> (line 423).\<close>

definition attribution :: jstring where
  "attribution =
     js ''https://linux.do/u/amna''"

subsection \<open>The response document\<close>

text \<open>
  An element of the parsed document, as far as \<open>clone\<close>, \<open>find('.label')\<close>, \<open>remove\<close>
  and \<open>text\<close> look at it: a text node, or an element with its classes and children.
\<close>

datatype node = Text jstring | Elem "jstring list" "node list"

text \<open>\<open>.text()\<close>: the text nodes below a node, concatenated in document order.\<close>

fun text_of :: "node \<Rightarrow> jstring" where
  "text_of (Text s) = s"
| "text_of (Elem classes children) = concat (map text_of children)"

definition is_label :: "node \<Rightarrow> bool" where
  "is_label n = (case n of Text s \<Rightarrow> False | Elem classes children \<Rightarrow> js ''label'' \<in> set classes)"

text \<open>\<open>.find('.label')\<close>: the descendants of class \<open>label\<close>, in document order.\<close>

fun find_labels :: "node \<Rightarrow> node list" where
  "find_labels (Text s) = []"
| "find_labels (Elem classes children) =
     concat (map (\<lambda>n. (if is_label n then [n] else []) @ find_labels n) children)"

text \<open>The clone after \<open>content.find('.label').remove()\<close>.\<close>

fun remove_labels :: "node \<Rightarrow> node" where
  "remove_labels (Text s) = Text s"
| "remove_labels (Elem classes children) =
     Elem classes (map remove_labels (filter (\<lambda>n. \<not> is_label n) children))"

text \<open>
  What \<open>parseHtmlResponse\<close> reads of a response: the text itself, and the answers of
  cheerio to each selection the function makes on the parsed document (every list in
  document order).
\<close>

record document =
  html :: jstring
  title_text :: jstring
  script_html :: "jstring list"
  body_text :: jstring
  h1_text :: jstring
  error_text :: jstring
  loc_content_html :: "jstring list"
  loc_img_src :: "jstring option list"
  asn_link_text :: "jstring list"
  asnname_content :: "node list"
  orgname_content :: "node list"
  line_rows :: "(jstring \<times> jstring) list"
  iptype_label_text :: "jstring list"
  risk_current :: "(jstring \<times> jstring) list"
  nativeip_label_text :: "jstring list"

text \<open>
  The fields are: \<open>$('title').text()\<close>; \<open>$(element).html() || ''\<close> of each \<open>script\<close>;
  \<open>$('body').text()\<close>; \<open>$('h1').text()\<close>; \<open>$('.error, .alert, .message').text()\<close>;
  \<open>html() || ''\<close> of each \<open>.line.loc .content\<close>; \<open>attr('src')\<close> of each
  \<open>.line.loc .content img\<close>; \<open>text()\<close> of each \<open>.line.asn .content a\<close>; each
  \<open>.line.asnname .content\<close> and each \<open>.line.orgname .content\<close>; for each \<open>.line\<close> the
  texts of its \<open>.name\<close> and \<open>.content\<close>; \<open>text()\<close> of each
  \<open>.line.line-iptype .content .label\<close>; for each
  \<open>.line.line-risk .content .riskbar .riskcurrent\<close> the texts of its \<open>.value\<close> and
  \<open>.lab\<close>; \<open>text()\<close> of each \<open>.line.line-nativeip .content .label\<close>.
\<close>

subsection \<open>Script variables\<close>

text \<open>Case folding of the flag \<open>i\<close>, which for the ASCII names of the patterns folds
  ASCII letters only.\<close>

definition upper :: "nat \<Rightarrow> nat" where
  "upper c = (if 0x61 \<le> c \<and> c \<le> 0x7A then c - 32 else c)"

text \<open>The tail \<open>\s*=\s*['"]([^'"]*)['"](;|\s)\<close> of the pattern of
  \<open>extractScriptVariables\<close>, matched at the start of \<open>s\<close>: the text of group 1.\<close>

definition match_script_value :: "jstring \<Rightarrow> jstring option" where
  "match_script_value s =
     (case dropWhile is_ws s of
        [] \<Rightarrow> None
      | e # r \<Rightarrow>
          if e \<noteq> 0x3D then None
          else (case dropWhile is_ws r of
                  [] \<Rightarrow> None
                | q # v \<Rightarrow>
                    if \<not> is_quote q then None
                    else (case dropWhile (\<lambda>c. \<not> is_quote c) v of
                            q2 # t # rest \<Rightarrow>
                              if t = 0x3B \<or> is_ws t
                              then Some (takeWhile (\<lambda>c. \<not> is_quote c) v) else None
                          | _ \<Rightarrow> None)))"

text \<open>\<open>content.match(pattern)\<close>: group 1 of the leftmost match, the name compared
  without regard to case.\<close>

fun match_script_variable :: "jstring \<Rightarrow> jstring \<Rightarrow> jstring option" where
  "match_script_variable name [] = None"
| "match_script_variable name (c # s) =
     (case (if prefix (map upper name) (map upper (c # s))
            then match_script_value (drop (length name) (c # s)) else None) of
        Some v \<Rightarrow> Some v
      | None \<Rightarrow> match_script_variable name s)"

definition varNames :: "jstring list" where
  "varNames = [js ''window.ip'', js ''window.tar'', js ''window.longitude'',
               js ''window.latitude'', js ''window.loc'']"

text \<open>The body of the inner loop of \<open>extractScriptVariables\<close> (lines 128 to 138).\<close>

definition scan_variable ::
  "jstring \<Rightarrow> jstring \<Rightarrow> (jstring \<rightharpoonup> jstring) \<Rightarrow> (jstring \<rightharpoonup> jstring)" where
  "scan_variable script varName scriptValues =
     (if js_includes script varName
      then (case match_script_variable varName script of
              Some v \<Rightarrow> if v \<noteq> [] then scriptValues(varName \<mapsto> v) else scriptValues
            | None \<Rightarrow> scriptValues)
      else scriptValues)"

definition extractScriptVariables :: "jstring list \<Rightarrow> (jstring \<rightharpoonup> jstring)" where
  "extractScriptVariables scripts =
     fold (\<lambda>script scriptValues. fold (scan_variable script) varNames scriptValues)
       scripts Map.empty"

subsection \<open>Text helpers\<close>

text \<open>\<open>html.replace(/<[^>]*>/g, ' ')\<close>.\<close>

function strip_tags :: "jstring \<Rightarrow> jstring" where
  "strip_tags [] = []"
| "strip_tags (c # s) =
     (if c = 0x3C \<and> 0x3E \<in> set s
      then 0x20 # strip_tags (tl (dropWhile (\<lambda>x. x \<noteq> 0x3E) s))
      else c # strip_tags s)"
  by pat_completeness auto
termination
proof (relation "measure length")
  show "wf (measure length)" by simp
next
  fix c :: nat and r :: jstring
  show "(tl (dropWhile (\<lambda>x. x \<noteq> 0x3E) r), c # r) \<in> measure length"
    using length_dropWhile_le [of "\<lambda>x. x \<noteq> 0x3E" r] by simp
next
  fix c :: nat and r :: jstring
  show "(r, c # r) \<in> measure length" by simp
qed

text \<open>A match of \<open>{{[^}]*}}\<close> at the start of \<open>s\<close>: what follows the match.\<close>

definition after_template :: "jstring \<Rightarrow> jstring option" where
  "after_template s =
     (case s of
        a # b # r \<Rightarrow>
          if a = 0x7B \<and> b = 0x7B
          then (case dropWhile (\<lambda>x. x \<noteq> 0x7D) r of
                  x # y # rest \<Rightarrow> if y = 0x7D then Some rest else None
                | _ \<Rightarrow> None)
          else None
      | _ \<Rightarrow> None)"

text \<open>\<open>text.replace(/{{[^}]*}}/g, '')\<close>.\<close>

function strip_templates :: "jstring \<Rightarrow> jstring" where
  "strip_templates [] = []"
| "strip_templates (c # s) =
     (case after_template (c # s) of
        Some rest \<Rightarrow> strip_templates rest
      | None \<Rightarrow> c # strip_templates s)"
  by pat_completeness auto
termination
proof (relation "measure length")
  show "wf (measure length)" by simp
next
  fix c :: nat and s rest :: jstring
  assume "after_template (c # s) = Some rest"
  then obtain b r x y where s: "c # s = c # b # r"
    and d: "dropWhile (\<lambda>x. x \<noteq> 0x7D) r = x # y # rest"
    by (auto simp: after_template_def split: list.splits if_splits)
  have "length (x # y # rest) \<le> length r"
    using length_dropWhile_le [of "\<lambda>x. x \<noteq> 0x7D" r] d by simp
  then show "(rest, c # s) \<in> measure length"
    using s by simp
next
  fix c :: nat and s :: jstring
  show "(s, c # s) \<in> measure length" by simp
qed

text \<open>\<open>text.replace(/\s+/g, ' ')\<close>.\<close>

function collapse_ws :: "jstring \<Rightarrow> jstring" where
  "collapse_ws [] = []"
| "collapse_ws (c # s) =
     (if is_ws c then 0x20 # collapse_ws (dropWhile is_ws s) else c # collapse_ws s)"
  by pat_completeness auto
termination
proof (relation "measure length")
  show "wf (measure length)" by simp
next
  fix c :: nat and s :: jstring
  show "(dropWhile is_ws s, c # s) \<in> measure length"
    using length_dropWhile_le [of is_ws s] by simp
next
  fix c :: nat and s :: jstring
  show "(s, c # s) \<in> measure length" by simp
qed

definition extractTextBetweenTags :: "jstring \<Rightarrow> jstring" where
  "extractTextBetweenTags h = trim (collapse_ws (strip_templates (strip_tags h)))"

text \<open>\<open>decodeHTMLEntities\<close>, with \<open>he.decode\<close> as a parameter (\<open>None\<close>: it throws, and the
  text is returned undecoded).\<close>

definition decodeHTMLEntities :: "(jstring \<Rightarrow> jstring option) \<Rightarrow> jstring \<Rightarrow> jstring" where
  "decodeHTMLEntities decode text =
     (if text = [] then []
      else (case decode text of Some decoded \<Rightarrow> decoded | None \<Rightarrow> text))"

subsection \<open>\<open>parseHtmlResponse\<close>\<close>

text \<open>The object \<open>result\<close>: a key is absent (\<open>None\<close>) until it is assigned.\<close>

record ip_info =
  ip :: "jstring option"
  ip_location :: "jstring option"
  country_flag :: "jstring option"
  asn :: "jstring option"
  asn_owner :: "jstring option"
  asn_type :: "jstring option"
  organization :: "jstring option"
  org_type :: "jstring option"
  longitude :: "jstring option"
  latitude :: "jstring option"
  ip_type :: "jstring option"
  risk_value :: "jstring option"
  native_ip :: "jstring option"
  princess :: "jstring option"

definition no_keys :: ip_info where
  "no_keys = \<lparr>ip = None, ip_location = None, country_flag = None, asn = None,
     asn_owner = None, asn_type = None, organization = None, org_type = None,
     longitude = None, latitude = None, ip_type = None, risk_value = None,
     native_ip = None, princess = None\<rparr>"

text \<open>Lines 208 to 216: the script variable, else the title up to its first dash.\<close>

definition extract_ip :: "document \<Rightarrow> jstring option" where
  "extract_ip doc =
     (let scriptValues = extractScriptVariables (script_html doc) in
      if truthy (scriptValues (js ''window.ip'')) then scriptValues (js ''window.ip'')
      else Some (trim (split_head 0x2D (title_text doc))))"

text \<open>Line 223: the excerpt of the body text.\<close>

definition pageExcerpt :: "jstring \<Rightarrow> jstring" where
  "pageExcerpt pageText =
     (if length pageText > 150 then substring0 pageText 147 @ js ''...'' else pageText)"

text \<open>A marker occurs in the response text or in the body text.\<close>

definition marked :: "document \<Rightarrow> jstring \<Rightarrow> bool" where
  "marked doc marker = (js_includes (html doc) marker \<or> js_includes (body_text doc) marker)"

text \<open>Lines 221 to 255: the message of the error thrown when no IP was found.\<close>

definition no_ip_message :: "document \<Rightarrow> jstring" where
  "no_ip_message doc =
     (let pageText = body_text doc; excerpt = pageExcerpt pageText in
      if marked doc marker_rate_limited then msg_rate_limited
      else if marked doc marker_system_error then msg_system_error
      else if marked doc marker_unreachable then msg_unreachable
      else if marked doc marker_ip_not_found then msg_ip_not_found
      else if marked doc marker_access_denied then msg_access_denied
      else if marked doc (js ''robots'') \<or> js_includes pageText marker_robot then msg_robot
      else if length pageText < 1000
      then msg_short_page_a @ digits (length pageText) @ msg_short_page_b @ excerpt @ [0x22]
      else
        let title = trim (title_text doc); h1Text = trim (h1_text doc);
            errorText = trim (error_text doc)
        in if errorText \<noteq> [] then msg_error_text @ errorText @ [0x22]
           else if title \<noteq> [] \<and> title \<noteq> js ''Ping0.cc''
           then msg_title_a @ title @ msg_title_b @ excerpt @ [0x22]
           else if h1Text \<noteq> [] then msg_h1_a @ h1Text @ msg_h1_b @ excerpt @ [0x22]
           else msg_no_ip @ excerpt @ [0x22])"

text \<open>Lines 259 to 277: the location.\<close>

definition location_of_content :: "(jstring \<Rightarrow> jstring option) \<Rightarrow> jstring \<Rightarrow> jstring" where
  "location_of_content decode h =
     decodeHTMLEntities decode (trim (remove_first error_submit (extractTextBetweenTags h)))"

definition extract_location ::
  "(jstring \<Rightarrow> jstring option) \<Rightarrow> document \<Rightarrow> jstring option" where
  "extract_location decode doc =
     (let scriptValues = extractScriptVariables (script_html doc) in
      if truthy (scriptValues (js ''window.loc''))
      then Some (decodeHTMLEntities decode (the (scriptValues (js ''window.loc''))))
      else fold (\<lambda>h found. if location_of_content decode h \<noteq> []
                             then Some (location_of_content decode h) else found)
             (loc_content_html doc) None)"

text \<open>Lines 280 to 289: the country flag.\<close>

definition extract_flag :: "document \<Rightarrow> jstring option" where
  "extract_flag doc =
     fold (\<lambda>flagSrc found. if truthy flagSrc
                             then Some (remove_first (js ''.png'') (split_last 0x2F (the flagSrc)))
                             else found)
       (loc_img_src doc) None"

text \<open>Lines 292 to 294: the ASN.\<close>

definition extract_asn :: "document \<Rightarrow> jstring option" where
  "extract_asn doc = fold (\<lambda>t found. Some (trim t)) (asn_link_text doc) None"

text \<open>
  Lines 299 to 312 and 334 to 347: the owner text of a region. The labels are removed
  from a clone, the remaining text is trimmed, cut at the first em-dash (U+2014),
  trimmed again and decoded.
\<close>

definition owner_of :: "(jstring \<Rightarrow> jstring option) \<Rightarrow> node \<Rightarrow> jstring" where
  "owner_of decode element =
     (let owner = trim (text_of (remove_labels element)) in
      decodeHTMLEntities decode
        (case indexOf owner 0x2014 of
           Some dashIndex \<Rightarrow> trim (substring0 owner dashIndex)
         | None \<Rightarrow> owner))"

text \<open>Lines 315 to 328 and 350 to 363: the non-empty trimmed texts of the labels of the
  region itself, joined.\<close>

definition label_texts :: "node \<Rightarrow> jstring list" where
  "label_texts element =
     filter (\<lambda>t. t \<noteq> []) (map (\<lambda>label. trim (text_of label)) (find_labels element))"

definition types_of :: "node \<Rightarrow> jstring" where
  "types_of element =
     (if length (label_texts element) > 0 then join (js ''; '') (label_texts element) else [])"

definition extract_owner ::
  "(jstring \<Rightarrow> jstring option) \<Rightarrow> node list \<Rightarrow> jstring option \<times> jstring option" where
  "extract_owner decode regions =
     fold (\<lambda>element found. (Some (owner_of decode element), Some (types_of element)))
       regions (None, None)"

text \<open>Lines 367 to 388: longitude and latitude.\<close>

definition extract_coordinate :: "jstring \<Rightarrow> jstring \<Rightarrow> document \<Rightarrow> jstring option" where
  "extract_coordinate varName label doc =
     (let scriptValues = extractScriptVariables (script_html doc) in
      if truthy (scriptValues varName) then scriptValues varName
      else fold (\<lambda>(name, contentText) found.
                   if trim name = label then Some (trim contentText) else found)
             (line_rows doc) None)"

text \<open>Lines 391 to 402: the IP type.\<close>

definition ipTypes :: "document \<Rightarrow> jstring list" where
  "ipTypes doc = filter (\<lambda>t. t \<noteq> []) (map trim (iptype_label_text doc))"

definition extract_ip_type :: "document \<Rightarrow> jstring option" where
  "extract_ip_type doc =
     (if length (ipTypes doc) > 0 then Some (join (js ''; '') (ipTypes doc)) else None)"

text \<open>Lines 405 to 411: the risk value.\<close>

definition extract_risk :: "document \<Rightarrow> jstring option" where
  "extract_risk doc =
     fold (\<lambda>(valueText, labText) found.
             if trim valueText \<noteq> [] \<and> trim labText \<noteq> []
             then Some (trim valueText @ js '' '' @ trim labText) else found)
       (risk_current doc) None"

text \<open>Lines 414 to 416: the native IP.\<close>

definition extract_native_ip :: "document \<Rightarrow> jstring option" where
  "extract_native_ip doc = fold (\<lambda>t found. Some (trim t)) (nativeip_label_text doc) None"

text \<open>
  \<open>parseHtmlResponse\<close>. Each loop of the source assigns keys of its own, so the object is
  built from one extraction per key. The result is the thrown message (\<open>Inl\<close>) or the
  object returned.
\<close>

definition parseHtmlResponse ::
  "(jstring \<Rightarrow> jstring option) \<Rightarrow> document \<Rightarrow> jstring + ip_info" where
  "parseHtmlResponse decode doc =
     (if html doc = [] then Inl msg_html_empty
      else if js_includes (html doc) marker_system_error then Inl msg_site_error
      else if js_includes (title_text doc) marker_system_error \<or>
              js_includes (title_text doc) (js ''Error'')
      then Inl (msg_error_page @ title_text doc)
      else if \<not> truthy (extract_ip doc) then Inl (no_ip_message doc)
      else
        let info = \<lparr>ip = extract_ip doc,
                     ip_location = extract_location decode doc,
                     country_flag = extract_flag doc,
                     asn = extract_asn doc,
                     asn_owner = fst (extract_owner decode (asnname_content doc)),
                     asn_type = snd (extract_owner decode (asnname_content doc)),
                     organization = fst (extract_owner decode (orgname_content doc)),
                     org_type = snd (extract_owner decode (orgname_content doc)),
                     longitude = extract_coordinate (js ''window.longitude'') label_longitude doc,
                     latitude = extract_coordinate (js ''window.latitude'') label_latitude doc,
                     ip_type = extract_ip_type doc,
                     risk_value = extract_risk doc,
                     native_ip = extract_native_ip doc,
                     princess = None\<rparr>
        in if \<not> truthy (ip info) then Inr no_keys
           else Inr (info\<lparr>princess := Some attribution\<rparr>))"

subsection \<open>\<open>queryIpInfo\<close>\<close>

text \<open>Message of line 23: the required cookies are incomplete.\<close>

definition msg_incomplete_cookies :: jstring where
  "msg_incomplete_cookies =
     [0x5FC5, 0x8981, 0x7684] @ js ''cookie'' @
     [0x4E0D, 0x5B8C, 0x6574, 0xFF0C, 0x65E0, 0x6CD5, 0x8FDB, 0x884C] @ [0x67E5, 0x8BE2]"

text \<open>Message of line 52: the parse result is empty.\<close>

definition msg_empty_result :: jstring where
  "msg_empty_result =
     [0x89E3, 0x6790, 0x7ED3, 0x679C, 0x4E3A, 0x7A7A, 0xFF0C, 0x53EF] @ [0x80FD, 0x662F] @
     js ''cookie'' @ [0x5DF2, 0x5931, 0x6548, 0x6216, 0x7F51, 0x7AD9, 0x7ED3, 0x6784] @
     [0x53D1, 0x751F, 0x53D8, 0x5316]"

text \<open>Message for status 403: access denied, the cookie may have expired.\<close>

definition msg_403 :: jstring where
  "msg_403 =
     [0x8BBF, 0x95EE, 0x88AB, 0x62D2, 0x7EDD, 0xFF0C] @ js ''cookie'' @
     [0x53EF, 0x80FD, 0x5DF2, 0x5931, 0x6548]"

text \<open>Message for status 429: too many requests.\<close>

definition msg_429 :: jstring where
  "msg_429 =
     [0x8BF7, 0x6C42, 0x8FC7, 0x4E8E, 0x9891, 0x7E41, 0xFF0C, 0x8BF7] @
     [0x7A0D, 0x540E, 0x518D, 0x8BD5]"

text \<open>Message for status 404: no information for this IP.\<close>

definition msg_404 :: jstring where
  "msg_404 =
     [0x67E5, 0x8BE2, 0x4E0D, 0x5230, 0x6B64] @ js ''IP'' @
     [0x4FE1, 0x606F, 0xFF0C, 0x53EF, 0x80FD, 0x662F, 0x65E0, 0x6548] @ js ''IP'' @
     [0x6216, 0x5730, 0x5740]"

text \<open>Message for status 500: internal server error.\<close>

definition msg_500 :: jstring where
  "msg_500 =
     [0x7F51, 0x7AD9, 0x670D, 0x52A1, 0x5668, 0x5185, 0x90E8, 0x9519] @
     [0x8BEF, 0xFF0C, 0x8BF7, 0x7A0D, 0x540E, 0x518D, 0x8BD5]"

text \<open>Message for status 502, 503 and 504: service unavailable.\<close>

definition msg_50x :: jstring where
  "msg_50x =
     [0x7F51, 0x7AD9, 0x670D, 0x52A1, 0x6682, 0x65F6, 0x4E0D, 0x53EF] @
     [0x7528, 0xFF0C, 0x53EF, 0x80FD, 0x6B63, 0x5728, 0x7EF4, 0x62A4]"

text \<open>Message for any other status, up to the status.\<close>

definition msg_status :: jstring where
  "msg_status =
     [0x67E5, 0x8BE2, 0x5931, 0x8D25, 0xFF0C] @ js ''HTTP'' @ [0x72B6, 0x6001, 0x7801] @
     js '': ''"

text \<open>Message for the code ECONNABORTED.\<close>

definition msg_aborted :: jstring where
  "msg_aborted =
     [0x67E5, 0x8BE2, 0x8D85, 0x65F6, 0xFF0C, 0x8BF7, 0x68C0, 0x67E5] @
     [0x7F51, 0x7EDC, 0x8FDE, 0x63A5]"

text \<open>Message for the code ECONNREFUSED.\<close>

definition msg_refused :: jstring where
  "msg_refused =
     [0x8FDE, 0x63A5, 0x88AB, 0x62D2, 0x7EDD, 0xFF0C, 0x7F51, 0x7AD9] @
     [0x53EF, 0x80FD, 0x6682, 0x65F6, 0x65E0, 0x6CD5, 0x8BBF, 0x95EE]"

text \<open>Message for the code ETIMEDOUT.\<close>

definition msg_timedout :: jstring where
  "msg_timedout =
     [0x7F51, 0x7EDC, 0x8FDE, 0x63A5, 0x8D85, 0x65F6, 0xFF0C, 0x8BF7] @
     [0x68C0, 0x67E5, 0x7F51, 0x7EDC, 0x72B6, 0x6001]"

text \<open>Message for the code ENETUNREACH.\<close>

definition msg_netunreach :: jstring where
  "msg_netunreach =
     [0x7F51, 0x7EDC, 0x4E0D, 0x53EF, 0x8FBE, 0xFF0C, 0x8BF7, 0x68C0] @
     [0x67E5, 0x7F51, 0x7EDC, 0x8FDE, 0x63A5]"

text \<open>Message for an error whose message mentions a certificate.\<close>

definition msg_certificate :: jstring where
  "msg_certificate =
     js ''SSL'' @ [0x8BC1, 0x4E66, 0x9A8C, 0x8BC1, 0x5931, 0x8D25, 0xFF0C, 0x53EF] @
     [0x80FD, 0x5B58, 0x5728, 0x7F51, 0x7EDC, 0x95EE, 0x9898]"

text \<open>Message for an error whose message mentions getaddrinfo.\<close>

definition msg_dns :: jstring where
  "msg_dns =
     js ''DNS'' @ [0x89E3, 0x6790, 0x5931, 0x8D25, 0xFF0C, 0x65E0, 0x6CD5, 0x8FDE] @
     [0x63A5, 0x5230, 0x670D, 0x52A1, 0x5668]"

text \<open>Message for an error with an empty message.\<close>

definition msg_unknown :: jstring where
  "msg_unknown =
     [0x672A, 0x77E5, 0x9519, 0x8BEF]"

text \<open>Suffix added for an error with a code and no response, up to the code.\<close>

definition msg_code :: jstring where
  "msg_code =
     js '' ('' @ [0x9519, 0x8BEF, 0x4EE3, 0x7801] @ js '': ''"

text \<open>The error thrown to the caller: its message and its field \<open>status\<close>.\<close>

record query_error =
  message :: jstring
  status :: "nat option"

text \<open>
  What axios does with the request: a response with a status and a body (axios throws
  an error carrying the response when \<open>validateStatus\<close> refuses the status), or no
  response at all, an error with an optional code and a message.
\<close>

datatype axios_result = Response nat document | NoResponse "jstring option" jstring

text \<open>What the catch block of \<open>queryIpInfo\<close> receives.\<close>

datatype thrown = WithResponse nat | Plain "jstring option" jstring

text \<open>The environment of a query: \<open>encodeURIComponent\<close> (\<open>None\<close>: it throws a URIError)
  and the answer to the GET of a URL with a cookie header.\<close>

record web =
  encodeURIComponent :: "jstring \<Rightarrow> jstring option"
  get :: "jstring \<Rightarrow> jstring \<Rightarrow> axios_result"

definition validateStatus :: "nat \<Rightarrow> bool" where
  "validateStatus st = (st = 200)"

text \<open>Lines 58 to 107: the catch block.\<close>

definition reclassify :: "thrown \<Rightarrow> query_error" where
  "reclassify error =
     (case error of
        WithResponse st \<Rightarrow>
          \<lparr>message =
             (if st = 403 then msg_403
              else if st = 429 then msg_429
              else if st = 404 then msg_404
              else if st = 500 then msg_500
              else if st = 502 \<or> st = 503 \<or> st = 504 then msg_50x
              else msg_status @ digits st),
           status = Some st\<rparr>
      | Plain code text \<Rightarrow>
          \<lparr>message =
             (if code = Some (js ''ECONNABORTED'') then msg_aborted
              else if code = Some (js ''ECONNREFUSED'') then msg_refused
              else if code = Some (js ''ETIMEDOUT'') then msg_timedout
              else if code = Some (js ''ENETUNREACH'') then msg_netunreach
              else if js_includes text (js ''certificate'') then msg_certificate
              else if js_includes text (js ''getaddrinfo'') then msg_dns
              else if text \<noteq> [] then text else msg_unknown) @
             (if truthy code then msg_code @ the code @ js '')'' else []),
           status = None\<rparr>)"

definition BASE_URL :: jstring where
  "BASE_URL = js ''https://ping0.cc''"

definition cookieStr :: "credentials \<Rightarrow> jstring" where
  "cookieStr cookies_in =
     js ''js1key='' @ the (js1key cookies_in) @ js ''; pow='' @ the (pow cookies_in)"

text \<open>Line 28: the URL of the query.\<close>

definition query_url :: "web \<Rightarrow> jstring \<Rightarrow> jstring option" where
  "query_url env target =
     (if target \<noteq> [] then
        (case encodeURIComponent env target of
           Some encoded \<Rightarrow> Some (BASE_URL @ js ''/ip/'' @ encoded)
         | None \<Rightarrow> None)
      else Some BASE_URL)"

definition queryIpInfo ::
  "(jstring \<Rightarrow> jstring option) \<Rightarrow> web \<Rightarrow> credentials \<Rightarrow> jstring \<Rightarrow> bool \<Rightarrow> query_error + ip_info" where
  "queryIpInfo decode env cookies_in target isVerbose =
     (if \<not> truthy (js1key cookies_in) \<or> \<not> truthy (pow cookies_in)
      then Inl \<lparr>message = msg_incomplete_cookies, status = None\<rparr>
      else
        case query_url env target of
          None \<Rightarrow> Inl (reclassify (Plain None (js ''URI malformed'')))
        | Some url \<Rightarrow>
            (case get env url (cookieStr cookies_in) of
               NoResponse code text \<Rightarrow> Inl (reclassify (Plain code text))
             | Response st doc \<Rightarrow>
                 if \<not> validateStatus st then Inl (reclassify (WithResponse st))
                 else (case parseHtmlResponse decode doc of
                         Inl text \<Rightarrow> Inl (reclassify (Plain None text))
                       | Inr found \<Rightarrow>
                           if found = no_keys
                           then Inl (reclassify (Plain None msg_empty_result))
                           else Inr found)))"

text \<open>No marker of lines 225 to 235 occurs.\<close>

definition unmarked :: "document \<Rightarrow> bool" where
  "unmarked doc =
     (\<not> marked doc marker_rate_limited \<and> \<not> marked doc marker_system_error \<and>
      \<not> marked doc marker_unreachable \<and> \<not> marked doc marker_ip_not_found \<and>
      \<not> marked doc marker_access_denied \<and> \<not> marked doc (js ''robots'') \<and>
      \<not> js_includes (body_text doc) marker_robot)"

text \<open>The three checks made before any extraction (lines 186 to 202) let the text pass.\<close>

definition passes_early_checks :: "document \<Rightarrow> bool" where
  "passes_early_checks doc =
     (html doc \<noteq> [] \<and> \<not> js_includes (html doc) marker_system_error \<and>
      \<not> js_includes (title_text doc) marker_system_error \<and>
      \<not> js_includes (title_text doc) (js ''Error''))"

section \<open>Example inputs\<close>

text \<open>An entry page with the two globals and no script reference, and one with both.\<close>

definition bare_page :: home_page where
  "bare_page =
     \<lparr>page_html = js ''<html><head><script>window.x1 = 'abc'; window.difficulty = '5';</script></head><body></body></html>'',
      page_scripts = [\<lparr>src = None, content = js ''window.x1 = 'abc'; window.difficulty = '5';''\<rparr>]\<rparr>"

definition entry_page :: home_page where
  "entry_page =
     \<lparr>page_html = js ''<html><head><script>window.x1 = 'abc'; window.difficulty = '5';</script><script src=/static/js/c.js></script></head><body></body></html>'',
      page_scripts = [\<lparr>src = None, content = js ''window.x1 = 'abc'; window.difficulty = '5';''\<rparr>,
                      \<lparr>src = Some (js ''/static/js/c.js''), content = []\<rparr>]\<rparr>"

definition resolved :: challenge_parameters where
  "resolved = \<lparr>html_of = page_html entry_page, x1 = js ''abc'', difficulty = js ''5'',
                scriptUrl = js ''https://ping0.cc/static/js/c.js''\<rparr>"

text \<open>A network that serves the full entry page and a script, and a store with a cached
  copy of an older script.\<close>

definition serving :: network where
  "serving = \<lparr>home = Inr entry_page, script_at = (\<lambda>url. Inr (js ''fresh();''))\<rparr>"

definition cached :: script_store where
  "cached = \<lparr>raw_js_file = Some (js ''stale();''), read_throws = False, write_throws = False,
              requested = []\<rparr>"

text \<open>
  Responses without an IP: a long page with an element of class \<open>alert\<close> followed by a
  thousand letters \<open>a\<close>; a short page whose title starts with a dash; and a page with
  the rate-limit marker.
\<close>

definition filler :: jstring where
  "filler = replicate 1000 0x61"

definition down_page :: document where
  "down_page =
     \<lparr>html = js ''<HTML><HEAD><TITLE></TITLE></HEAD><BODY><DIV CLASS=alert>Service down</DIV>'' @
              filler @ js ''</BODY></HTML>'',
      title_text = [], script_html = [],
      body_text = js ''Service down'' @ filler,
      h1_text = [], error_text = js ''Service down'',
      loc_content_html = [], loc_img_src = [], asn_link_text = [], asnname_content = [],
      orgname_content = [], line_rows = [], iptype_label_text = [], risk_current = [],
      nativeip_label_text = []\<rparr>"

definition wait_page :: document where
  "wait_page =
     \<lparr>html = js ''<HTML><HEAD><TITLE>- Maintenance</TITLE></HEAD><BODY>Please wait</BODY></HTML>'',
      title_text = js ''- Maintenance'', script_html = [],
      body_text = js ''Please wait'',
      h1_text = [], error_text = [],
      loc_content_html = [], loc_img_src = [], asn_link_text = [], asnname_content = [],
      orgname_content = [], line_rows = [], iptype_label_text = [], risk_current = [],
      nativeip_label_text = []\<rparr>"

definition busy_page :: document where
  "busy_page =
     \<lparr>html = js ''<html><head><title></title></head><body>'' @ marker_rate_limited @
              js ''</body></html>'',
      title_text = [], script_html = [],
      body_text = marker_rate_limited, h1_text = [], error_text = [],
      loc_content_html = [], loc_img_src = [], asn_link_text = [], asnname_content = [],
      orgname_content = [], line_rows = [], iptype_label_text = [], risk_current = [],
      nativeip_label_text = []\<rparr>"

text \<open>
  Responses with an IP: the page of the specification's example (an ASN-owner and an
  organisation region, each with an owner text with an em-dash and the labels \<open>ISP\<close>
  and \<open>Business\<close>; the IP and the location in script globals);
  a page with nothing but the IP in its title; the same with an organisation region
  without labels; and the same with three IP-type labels, one of them blank.
\<close>

definition owner_region :: node where
  "owner_region =
     Elem [js ''content'']
       [Text (js ''Example Org '' @ [0x2014] @ js '' legacy ''),
        Elem [js ''label'', js ''orange''] [Text (js ''ISP'')],
        Elem [js ''label''] [Text (js ''Business'')]]"

definition org_page :: document where
  "org_page =
     \<lparr>html =
        js ''<html><head><title>Ping0.cc</title><script>window.ip = '1.1.1.1'; window.loc = 'Example City';</script></head><body><div class='line asnname'><div class='content'>Example Org '' @
        [0x2014] @
        js '' legacy <span class='label orange'>ISP</span><span class='label'>Business</span></div></div><div class='line orgname'><div class='content'>Example Org '' @
        [0x2014] @
        js '' legacy <span class='label orange'>ISP</span><span class='label'>Business</span></div></div></body></html>'',
      title_text = js ''Ping0.cc'',
      script_html = [js ''window.ip = '1.1.1.1'; window.loc = 'Example City';''],
      body_text = js ''Example Org '' @ [0x2014] @ js '' legacy ISPBusinessExample Org '' @
                  [0x2014] @ js '' legacy ISPBusiness'',
      h1_text = [], error_text = [],
      loc_content_html = [], loc_img_src = [], asn_link_text = [],
      asnname_content = [owner_region],
      orgname_content = [owner_region],
      line_rows = [([], js ''Example Org '' @ [0x2014] @ js '' legacy ISPBusiness''),
                   ([], js ''Example Org '' @ [0x2014] @ js '' legacy ISPBusiness'')],
      iptype_label_text = [], risk_current = [], nativeip_label_text = []\<rparr>"

text \<open>
  A page with two organisation regions, the second with an owner text that holds the
  character reference \<open>&amp;\<close> (written \<open>&amp;amp;\<close> in the markup); a decoder
  that knows this reference only; and a decoder that throws on every text.
\<close>

definition entity_region :: node where
  "entity_region =
     Elem [js ''content'']
       [Text (js ''Tom &amp; Co '' @ [0x2014] @ js '' old ''),
        Elem [js ''label''] [Text (js ''Hosting'')]]"

definition entity_page :: document where
  "entity_page =
     \<lparr>html =
        js ''<html><head><title>1.1.1.1 - Ping0.cc</title></head><body><div class='line orgname'><div class='content'>Example Org '' @
        [0x2014] @
        js '' legacy <span class='label orange'>ISP</span><span class='label'>Business</span></div></div><div class='line orgname'><div class='content'>Tom &amp;amp; Co '' @
        [0x2014] @
        js '' old <span class='label'>Hosting</span></div></div></body></html>'',
      title_text = js ''1.1.1.1 - Ping0.cc'', script_html = [],
      body_text = js ''Example Org '' @ [0x2014] @ js '' legacy ISPBusinessTom &amp; Co '' @
                  [0x2014] @ js '' old Hosting'',
      h1_text = [], error_text = [],
      loc_content_html = [], loc_img_src = [], asn_link_text = [], asnname_content = [],
      orgname_content = [owner_region, entity_region],
      line_rows = [([], js ''Example Org '' @ [0x2014] @ js '' legacy ISPBusiness''),
                   ([], js ''Tom &amp; Co '' @ [0x2014] @ js '' old Hosting'')],
      iptype_label_text = [], risk_current = [], nativeip_label_text = []\<rparr>"

function unescape_amp :: "jstring \<Rightarrow> jstring" where
  "unescape_amp [] = []"
| "unescape_amp (c # s) =
     (if prefix (js ''&amp;'') (c # s) then 0x26 # unescape_amp (drop 4 s)
      else c # unescape_amp s)"
  by pat_completeness auto
termination
  by (relation "measure length") simp_all

definition decode_amp :: "jstring \<Rightarrow> jstring option" where
  "decode_amp text = Some (unescape_amp text)"

definition decode_throws :: "jstring \<Rightarrow> jstring option" where
  "decode_throws text = None"

definition plain_page :: document where
  "plain_page =
     \<lparr>html = js ''<html><head><title>1.1.1.1 - Ping0.cc</title></head><body></body></html>'',
      title_text = js ''1.1.1.1 - Ping0.cc'', script_html = [],
      body_text = [], h1_text = [], error_text = [],
      loc_content_html = [], loc_img_src = [], asn_link_text = [], asnname_content = [],
      orgname_content = [], line_rows = [], iptype_label_text = [], risk_current = [],
      nativeip_label_text = []\<rparr>"

definition untyped_page :: document where
  "untyped_page =
     \<lparr>html = js ''<html><head><title>1.1.1.1 - Ping0.cc</title></head><body><div class='line orgname'><div class='content'>Example Org</div></div></body></html>'',
      title_text = js ''1.1.1.1 - Ping0.cc'', script_html = [],
      body_text = js ''Example Org'', h1_text = [], error_text = [],
      loc_content_html = [], loc_img_src = [], asn_link_text = [], asnname_content = [],
      orgname_content = [Elem [js ''content''] [Text (js ''Example Org'')]],
      line_rows = [([], js ''Example Org'')], iptype_label_text = [], risk_current = [],
      nativeip_label_text = []\<rparr>"

definition typed_page :: document where
  "typed_page =
     \<lparr>html = js ''<html><head><title>1.1.1.1 - Ping0.cc</title></head><body><div class='line orgname'><div class='content'>Example Org</div></div><div class='line line-iptype'><div class='content'><span class='label'>IDC</span><span class='label'> </span><span class='label'> Native </span></div></div></body></html>'',
      title_text = js ''1.1.1.1 - Ping0.cc'', script_html = [],
      body_text = js ''Example OrgIDC  Native '', h1_text = [], error_text = [],
      loc_content_html = [], loc_img_src = [], asn_link_text = [], asnname_content = [],
      orgname_content = [Elem [js ''content''] [Text (js ''Example Org'')]],
      line_rows = [([], js ''Example Org''), ([], js ''IDC  Native '')],
      iptype_label_text = [js ''IDC'', js '' '', js '' Native ''], risk_current = [],
      nativeip_label_text = []\<rparr>"

text \<open>A credential pair, and a web that answers every request with one status and page.\<close>

definition session :: credentials where
  "session = \<lparr>js1key = Some (js ''K1''), pow = Some (js ''P1'')\<rparr>"

definition answering :: "nat \<Rightarrow> document \<Rightarrow> web" where
  "answering st doc = \<lparr>encodeURIComponent = Some, get = (\<lambda>url header. Response st doc)\<rparr>"

section \<open>Properties of the sandbox acquisition\<close>

lemmas sandbox_eval =
  cookie_setter_def parse_pair_def split_head_def split_second_def truthy_def trim_def
  is_ws_def js_def armed_def initial_def Let_def resolve_def sandbox_with_def writing_def
  getCookies_def free_until_def timeoutTimer_callback_def backupTimer_callback_def
  end_of_job_def end_of_task_def deliver_def no_credentials_def unread_def

subsection \<open>The invariant\<close>

lemma sound_clock [simp]: "sound (s\<lparr>clock := t\<rparr>) = sound s"
  by (simp add: sound_def)

lemma sound_held [simp]: "sound (s\<lparr>held := b\<rparr>) = sound s"
  by (simp add: sound_def)








lemma held_cookie_setter [simp]: "held (cookie_setter w s) = held s"
  by (simp add: cookie_setter_def resolve_def Let_def split: option.splits prod.splits)

lemma held_run_writes [simp]: "held (run_writes s ws) = held s"
  by (induction s ws rule: run_writes.induct) simp_all

lemma held_end_of_job [simp]: "held (end_of_job s) = held s"
  by (simp add: end_of_job_def deliver_def)

lemma held_end_of_task [simp]: "held (end_of_task s) = held s"
  by (simp add: end_of_task_def deliver_def)

lemma held_resolve [simp]: "held (resolve tr s) = held s"
  by (simp add: resolve_def)




lemma between_clock [simp]: "between_tasks (s\<lparr>clock := t\<rparr>) = between_tasks s"
  by (simp add: between_tasks_def)





lemma promise_resolve: "promise (resolve tr s) \<noteq> None"
  by (simp add: resolve_def split: option.splits)



lemma promise_end_of_task [simp]: "promise (end_of_task s) = promise s"
  by (simp add: end_of_task_def deliver_def)

lemma promise_end_of_job [simp]: "promise (end_of_job s) = promise s"
  by (simp add: end_of_job_def deliver_def)








subsection \<open>The first resolution\<close>

lemma clock_cookie_setter [simp]: "clock (cookie_setter w s) = clock s"
  by (simp add: cookie_setter_def resolve_def Let_def split: option.splits prod.splits)









text \<open>
  The statement above ends at the resolution. The setter means to end the script there
  (lines 256 to 275), but a job that is running goes on, and the setter does not test
  whether the promise is settled: after \<open>js1key=K1\<close> and \<open>pow=P1\<close>, a write
  \<open>js1key=K2\<close> of the same job assigns the object the promise was fulfilled with and
  calls \<open>resolve\<close> again, and the caller, resumed after the job, reads \<open>K2\<close>.
\<close>

lemma later_write_reaches_caller:
  "delivered (getCookies (js ''abc'') (js ''5'') False
      (sandbox_with (writing [js ''js1key=K1'', js ''pow=P1''] 0) [])) =
     Some \<lparr>js1key = Some (js ''K1''), pow = Some (js ''P1'')\<rparr> \<and>
   delivered (getCookies (js ''abc'') (js ''5'') False
      (sandbox_with (writing [js ''js1key=K1'', js ''pow=P1'', js ''js1key=K2''] 0) [])) =
     Some \<lparr>js1key = Some (js ''K2''), pow = Some (js ''P1'')\<rparr> \<and>
   resolve_calls (getCookies (js ''abc'') (js ''5'') False
      (sandbox_with (writing [js ''js1key=K1'', js ''pow=P1'', js ''js1key=K2''] 0) [])) = 2"
  by (simp add: sandbox_eval)

subsection \<open>The timeout window\<close>

lemma quiet_clock [simp]: "quiet b (s\<lparr>clock := t\<rparr>) = quiet b s"
  by (simp add: quiet_def)








lemma clock_end_of_job [simp]: "clock (end_of_job s) = clock s"
  by (simp add: end_of_job_def deliver_def)

lemma clock_end_of_task [simp]: "clock (end_of_task s) = clock s"
  by (simp add: end_of_task_def deliver_def)

















section \<open>Properties of the parameter resolver and the script source\<close>

lemmas fetch_eval =
  fetchHomePage_def scan_globals_def scan_src_def match_quoted_value_def is_quote_def
  is_ws_def truthy_def js_def Let_def

text \<open>
  Claim C3 fails on the code. The prefix \<open>https://ping0.cc\<close> is put before the URL
  before the test \<open>!scriptUrl\<close> is made, so the test never fires: an entry page with the
  two globals and no script reference is not refused, it yields the service root as the
  script URL.
\<close>

theorem fetchHomePage_without_script_reference:
  "fetchHomePage False (Inr bare_page) =
     Inr \<lparr>html_of = page_html bare_page, x1 = js ''abc'', difficulty = js ''5'',
           scriptUrl = js ''https://ping0.cc''\<rparr>"
  by (simp add: bare_page_def fetch_eval)

text \<open>The test of line 521 fails on the two globals only, and what is returned has no
  empty field.\<close>

lemma fetchHomePage_missing:
  "fetchHomePage v (Inr page) = Inl MissingParameters \<longleftrightarrow>
     fst (fold scan_globals (page_scripts page) ([], [])) = [] \<or>
     snd (fold scan_globals (page_scripts page) ([], [])) = []"
  by (auto simp: fetchHomePage_def Let_def js_def)

lemma fetchHomePage_returned:
  "fetchHomePage v response = Inr p \<Longrightarrow> x1 p \<noteq> [] \<and> difficulty p \<noteq> [] \<and> scriptUrl p \<noteq> []"
  by (auto simp: fetchHomePage_def Let_def split: sum.splits if_splits)

lemma fetchAndSaveScript_requested:
  "requested (snd (fetchAndSaveScript url v net st)) = requested st @ [url]"
  by (simp add: fetchAndSaveScript_def Let_def split: sum.splits)

lemma fetchAndSaveScript_stored:
  "script_at net url = Inr c \<Longrightarrow> \<not> write_throws st \<Longrightarrow>
     fetchAndSaveScript url v net st =
       (Inr c, st\<lparr>requested := requested st @ [url], raw_js_file := Some c\<rparr>)"
  by (simp add: fetchAndSaveScript_def Let_def)

text \<open>
  Claim C8. Once the entry page has given the parameters: with \<open>forceUpdate\<close>, or with
  no file \<open>raw.js\<close>, the script is requested from the resolved URL, and when the
  download and the write succeed the file holds the downloaded text, which is returned;
  otherwise the file is read and returned, nothing is requested and nothing is written.
\<close>

theorem checkAndUpdateRawJs_cache:
  assumes "fetchHomePage isVerbose (home net) = Inr p"
  shows "(forceUpdate \<or> raw_js_file st = None \<longrightarrow>
            requested (snd (checkAndUpdateRawJs forceUpdate isVerbose net st)) =
              requested st @ [scriptUrl p] \<and>
            (script_at net (scriptUrl p) = Inr fresh \<and> \<not> write_throws st \<longrightarrow>
               checkAndUpdateRawJs forceUpdate isVerbose net st =
                 (Inr \<lparr>jsContent = fresh, x1_of = x1 p, difficulty_of = difficulty p\<rparr>,
                  st\<lparr>requested := requested st @ [scriptUrl p], raw_js_file := Some fresh\<rparr>))) \<and>
         (\<not> forceUpdate \<and> raw_js_file st = Some kept \<longrightarrow>
            snd (checkAndUpdateRawJs forceUpdate isVerbose net st) = st \<and>
            (\<not> read_throws st \<longrightarrow>
               fst (checkAndUpdateRawJs forceUpdate isVerbose net st) =
                 Inr \<lparr>jsContent = kept, x1_of = x1 p, difficulty_of = difficulty p\<rparr>))"
proof -
  have requested: "forceUpdate \<or> raw_js_file st = None \<Longrightarrow>
      requested (snd (checkAndUpdateRawJs forceUpdate isVerbose net st)) =
        requested st @ [scriptUrl p]"
    using assms fetchAndSaveScript_requested [of "scriptUrl p" isVerbose net st]
    by (auto simp: checkAndUpdateRawJs_def Let_def split: prod.splits)
  have stored: "forceUpdate \<or> raw_js_file st = None \<Longrightarrow>
      script_at net (scriptUrl p) = Inr fresh \<Longrightarrow> \<not> write_throws st \<Longrightarrow>
      checkAndUpdateRawJs forceUpdate isVerbose net st =
        (Inr \<lparr>jsContent = fresh, x1_of = x1 p, difficulty_of = difficulty p\<rparr>,
         st\<lparr>requested := requested st @ [scriptUrl p], raw_js_file := Some fresh\<rparr>)"
    using assms by (auto simp: checkAndUpdateRawJs_def Let_def fetchAndSaveScript_stored)
  have untouched: "\<not> forceUpdate \<Longrightarrow> raw_js_file st = Some kept \<Longrightarrow>
      snd (checkAndUpdateRawJs forceUpdate isVerbose net st) = st"
    using assms by (simp add: checkAndUpdateRawJs_def Let_def)
  have read: "\<not> forceUpdate \<Longrightarrow> raw_js_file st = Some kept \<Longrightarrow> \<not> read_throws st \<Longrightarrow>
      fst (checkAndUpdateRawJs forceUpdate isVerbose net st) =
        Inr \<lparr>jsContent = kept, x1_of = x1 p, difficulty_of = difficulty p\<rparr>"
    using assms by (simp add: checkAndUpdateRawJs_def Let_def)
  from requested stored untouched read show ?thesis by blast
qed

lemma entry_resolved: "fetchHomePage False (home serving) = Inr resolved"
  by (simp add: serving_def entry_page_def resolved_def fetch_eval)

theorem checkAndUpdateRawJs_cache_witness:
  "fetchHomePage False (home serving) = Inr resolved \<and>
   script_at serving (scriptUrl resolved) = Inr (js ''fresh();'') \<and>
   \<not> write_throws cached \<and> \<not> read_throws cached \<and>
   raw_js_file cached = Some (js ''stale();'') \<and>
   checkAndUpdateRawJs True False serving cached =
     (Inr \<lparr>jsContent = js ''fresh();'', x1_of = js ''abc'', difficulty_of = js ''5''\<rparr>,
      cached\<lparr>requested := [js ''https://ping0.cc/static/js/c.js''],
             raw_js_file := Some (js ''fresh();'')\<rparr>) \<and>
   checkAndUpdateRawJs False False serving cached =
     (Inr \<lparr>jsContent = js ''stale();'', x1_of = js ''abc'', difficulty_of = js ''5''\<rparr>, cached)"
proof -
  have a: "script_at serving (scriptUrl resolved) = Inr (js ''fresh();'')"
    "\<not> write_throws cached" "\<not> read_throws cached"
    "raw_js_file cached = Some (js ''stale();'')" "requested cached = []"
    by (simp_all add: serving_def cached_def)
  have b: "scriptUrl resolved = js ''https://ping0.cc/static/js/c.js''"
    "x1 resolved = js ''abc''" "difficulty resolved = js ''5''"
    by (simp_all add: resolved_def)
  show ?thesis
    using a b entry_resolved
      checkAndUpdateRawJs_cache [OF entry_resolved, of True cached "js ''fresh();''" "js ''stale();''"]
      checkAndUpdateRawJs_cache [OF entry_resolved, of False cached "js ''fresh();''" "js ''stale();''"]
    by (simp add: prod_eq_iff)
qed

section \<open>Properties of the query and the extraction\<close>

lemmas markers =
  marker_rate_limited_def marker_system_error_def marker_unreachable_def
  marker_ip_not_found_def marker_access_denied_def marker_robot_def

lemmas string_eval =
  js_def truthy_def is_ws_def trim_def is_quote_def upper_def split_head_def split_second_def
  split_last_def indexOf_def substring0_def Let_def

lemmas parse_eval =
  parseHtmlResponse_def extract_ip_def extractScriptVariables_def extract_location_def
  extract_flag_def extract_asn_def extract_owner_def owner_of_def types_of_def label_texts_def
  is_label_def decodeHTMLEntities_def extract_coordinate_def extract_ip_type_def ipTypes_def
  extract_risk_def extract_native_ip_def no_keys_def label_longitude_def label_latitude_def
  markers string_eval

subsection \<open>Strings\<close>

lemma js_includes_set: "js_includes s m \<Longrightarrow> set m \<subseteq> set s"
proof (induction s)
  case Nil
  then show ?case by simp
next
  case (Cons c s)
  then show ?case using set_mono_prefix [of m "c # s"] by auto
qed

lemma js_includes_length: "js_includes s m \<Longrightarrow> length m \<le> length s"
  by (induction s) (auto dest: prefix_length_le)

lemma js_includes_missing: "c \<in> set m \<Longrightarrow> c \<notin> set s \<Longrightarrow> \<not> js_includes s m"
  using js_includes_set [of s m] by blast

lemma digits_11: "digits 11 = js ''11''"
  by (simp add: digits.simps js_def)

subsection \<open>What \<open>parseHtmlResponse\<close> returns\<close>

lemma parse_returns:
  assumes "parseHtmlResponse decode doc = Inr r"
  shows "r = \<lparr>ip = extract_ip doc,
               ip_location = extract_location decode doc,
               country_flag = extract_flag doc,
               asn = extract_asn doc,
               asn_owner = fst (extract_owner decode (asnname_content doc)),
               asn_type = snd (extract_owner decode (asnname_content doc)),
               organization = fst (extract_owner decode (orgname_content doc)),
               org_type = snd (extract_owner decode (orgname_content doc)),
               longitude = extract_coordinate (js ''window.longitude'') label_longitude doc,
               latitude = extract_coordinate (js ''window.latitude'') label_latitude doc,
               ip_type = extract_ip_type doc,
               risk_value = extract_risk doc,
               native_ip = extract_native_ip doc,
               princess = Some attribution\<rparr>"
    and "truthy (extract_ip doc)"
  using assms by (auto simp: parseHtmlResponse_def Let_def split: if_splits)

lemma parse_raises:
  "\<not> truthy (extract_ip doc) \<Longrightarrow> \<exists>msg. parseHtmlResponse decode doc = Inl msg"
  by (simp add: parseHtmlResponse_def Let_def)

lemma parse_fields:
  "parseHtmlResponse decode doc = Inr r \<Longrightarrow> truthy (ip r) \<and> princess r = Some attribution"
  by (auto simp: parseHtmlResponse_def Let_def split: if_splits)

lemma query_fields:
  "queryIpInfo decode env c target verbose = Inr q \<Longrightarrow>
     truthy (ip q) \<and> princess q = Some attribution"
  by (auto simp: queryIpInfo_def split: if_splits option.splits axios_result.splits sum.splits
           dest: parse_fields)

lemma plain_parse:
  "parseHtmlResponse Some plain_page = Inr (no_keys\<lparr>ip := Some (js ''1.1.1.1''), princess := Some attribution\<rparr>)"
  by (simp add: parseHtmlResponse_def plain_page_def extract_ip_def extractScriptVariables_def
        extract_location_def extract_flag_def extract_asn_def extract_owner_def
        extract_coordinate_def extract_ip_type_def ipTypes_def extract_risk_def
        extract_native_ip_def no_keys_def markers string_eval)

lemma plain_query:
  "queryIpInfo Some (answering 200 plain_page) session (js ''1.1.1.1'') False =
     Inr (no_keys\<lparr>ip := Some (js ''1.1.1.1''), princess := Some attribution\<rparr>)"
  by (simp add: queryIpInfo_def query_url_def answering_def session_def validateStatus_def
        plain_parse truthy_def)
     (simp add: no_keys_def js_def)

text \<open>
  Claim C9. A record returned by \<open>parseHtmlResponse\<close>, and so one returned by
  \<open>queryIpInfo\<close>, has a non-empty \<open>ip\<close> and the fixed attribution under \<open>princess\<close>.
  Every other key can be absent: the witness is a record with these two keys only.
\<close>

theorem record_has_ip_and_attribution:
  "(parseHtmlResponse decode doc = Inr r \<longrightarrow> truthy (ip r) \<and> princess r = Some attribution) \<and>
   (queryIpInfo decode env c target verbose = Inr q \<longrightarrow>
      truthy (ip q) \<and> princess q = Some attribution)"
  using parse_fields [of decode doc r] query_fields [of decode env c target verbose q]
  by blast

theorem record_has_ip_and_attribution_witness:
  "parseHtmlResponse Some plain_page =
     Inr (no_keys\<lparr>ip := Some (js ''1.1.1.1''), princess := Some attribution\<rparr>) \<and>
   queryIpInfo Some (answering 200 plain_page) session (js ''1.1.1.1'') False =
     Inr (no_keys\<lparr>ip := Some (js ''1.1.1.1''), princess := Some attribution\<rparr>) \<and>
   truthy (ip (no_keys\<lparr>ip := Some (js ''1.1.1.1''), princess := Some attribution\<rparr>)) \<and>
   princess (no_keys\<lparr>ip := Some (js ''1.1.1.1''), princess := Some attribution\<rparr>) =
     Some attribution"
  using plain_parse plain_query
    record_has_ip_and_attribution [of Some plain_page
      "no_keys\<lparr>ip := Some (js ''1.1.1.1''), princess := Some attribution\<rparr>"
      "answering 200 plain_page" session "js ''1.1.1.1''" False
      "no_keys\<lparr>ip := Some (js ''1.1.1.1''), princess := Some attribution\<rparr>"]
  by simp

subsection \<open>The HTTP status\<close>

text \<open>
  Claim C7. A query succeeds only on a response with status 200. With both credentials
  present, a response with any other status makes the query fail with that status in
  the error's field \<open>status\<close>, and status 403 gives the access-denied message.
\<close>

theorem query_success_only_200:
  "(queryIpInfo decode env c target verbose = Inr r \<longrightarrow>
      (\<exists>url doc. query_url env target = Some url \<and>
                 get env url (cookieStr c) = Response 200 doc)) \<and>
   (truthy (js1key c) \<and> truthy (pow c) \<and> query_url env target = Some url \<and>
    get env url (cookieStr c) = Response st doc \<and> st \<noteq> 200 \<longrightarrow>
      (\<exists>m. queryIpInfo decode env c target verbose = Inl \<lparr>message = m, status = Some st\<rparr>)) \<and>
   (truthy (js1key c) \<and> truthy (pow c) \<and> query_url env target = Some url \<and>
    get env url (cookieStr c) = Response 403 doc \<longrightarrow>
      queryIpInfo decode env c target verbose = Inl \<lparr>message = msg_403, status = Some 403\<rparr>)"
  by (auto simp: queryIpInfo_def validateStatus_def reclassify_def
           split: if_splits option.splits axios_result.splits sum.splits)

theorem query_success_only_200_witness:
  "truthy (js1key session) \<and> truthy (pow session) \<and>
   query_url (answering 403 wait_page) (js ''1.1.1.1'') = Some (js ''https://ping0.cc/ip/1.1.1.1'') \<and>
   get (answering 403 wait_page) (js ''https://ping0.cc/ip/1.1.1.1'') (cookieStr session) =
     Response 403 wait_page \<and>
   queryIpInfo Some (answering 403 wait_page) session (js ''1.1.1.1'') False =
     Inl \<lparr>message = msg_403, status = Some 403\<rparr> \<and>
   queryIpInfo Some (answering 200 plain_page) session (js ''1.1.1.1'') False =
     Inr (no_keys\<lparr>ip := Some (js ''1.1.1.1''), princess := Some attribution\<rparr>) \<and>
   get (answering 200 plain_page) (js ''https://ping0.cc/ip/1.1.1.1'') (cookieStr session) =
     Response 200 plain_page"
proof -
  have a: "truthy (js1key session)" "truthy (pow session)"
    by (simp_all add: session_def truthy_def js_def)
  have b: "query_url (answering 403 wait_page) (js ''1.1.1.1'') =
      Some (js ''https://ping0.cc/ip/1.1.1.1'')"
    by (simp add: query_url_def answering_def BASE_URL_def js_def)
  have c: "get (answering 403 wait_page) (js ''https://ping0.cc/ip/1.1.1.1'') (cookieStr session) =
      Response 403 wait_page"
    "get (answering 200 plain_page) (js ''https://ping0.cc/ip/1.1.1.1'') (cookieStr session) =
      Response 200 plain_page"
    by (simp_all add: answering_def)
  show ?thesis
    using a b c plain_query
      query_success_only_200 [of Some "answering 403 wait_page" session "js ''1.1.1.1''" False
        no_keys "js ''https://ping0.cc/ip/1.1.1.1''" 403 wait_page]
    by simp
qed

subsection \<open>Pages without an IP\<close>

lemma excerpt_bound: "length (pageExcerpt t) \<le> 150"
  by (simp add: pageExcerpt_def substring0_def js_def)

lemma parse_no_ip:
  "\<not> truthy (extract_ip doc) \<Longrightarrow> passes_early_checks doc \<Longrightarrow>
     parseHtmlResponse decode doc = Inl (no_ip_message doc)"
  by (simp add: parseHtmlResponse_def passes_early_checks_def)

lemma no_ip_message_marked:
  "marked doc marker_rate_limited \<Longrightarrow> no_ip_message doc = msg_rate_limited"
  "\<not> marked doc marker_rate_limited \<Longrightarrow> marked doc marker_system_error \<Longrightarrow>
     no_ip_message doc = msg_system_error"
  "\<not> marked doc marker_rate_limited \<Longrightarrow> \<not> marked doc marker_system_error \<Longrightarrow>
     marked doc marker_unreachable \<Longrightarrow> no_ip_message doc = msg_unreachable"
  "\<not> marked doc marker_rate_limited \<Longrightarrow> \<not> marked doc marker_system_error \<Longrightarrow>
     \<not> marked doc marker_unreachable \<Longrightarrow> marked doc marker_ip_not_found \<Longrightarrow>
     no_ip_message doc = msg_ip_not_found"
  "\<not> marked doc marker_rate_limited \<Longrightarrow> \<not> marked doc marker_system_error \<Longrightarrow>
     \<not> marked doc marker_unreachable \<Longrightarrow> \<not> marked doc marker_ip_not_found \<Longrightarrow>
     marked doc marker_access_denied \<Longrightarrow> no_ip_message doc = msg_access_denied"
  "\<not> marked doc marker_rate_limited \<Longrightarrow> \<not> marked doc marker_system_error \<Longrightarrow>
     \<not> marked doc marker_unreachable \<Longrightarrow> \<not> marked doc marker_ip_not_found \<Longrightarrow>
     \<not> marked doc marker_access_denied \<Longrightarrow>
     marked doc (js ''robots'') \<or> js_includes (body_text doc) marker_robot \<Longrightarrow>
     no_ip_message doc = msg_robot"
  by (simp_all add: no_ip_message_def Let_def)

lemma no_ip_message_unmarked:
  assumes "unmarked doc"
  shows "length (body_text doc) < 1000 \<Longrightarrow>
           no_ip_message doc =
             msg_short_page_a @ digits (length (body_text doc)) @ msg_short_page_b @
             pageExcerpt (body_text doc) @ [0x22]"
    and "1000 \<le> length (body_text doc) \<Longrightarrow> trim (error_text doc) \<noteq> [] \<Longrightarrow>
           no_ip_message doc = msg_error_text @ trim (error_text doc) @ [0x22]"
    and "1000 \<le> length (body_text doc) \<Longrightarrow> trim (error_text doc) = [] \<Longrightarrow>
         trim (title_text doc) \<noteq> [] \<Longrightarrow> trim (title_text doc) \<noteq> js ''Ping0.cc'' \<Longrightarrow>
           no_ip_message doc =
             msg_title_a @ trim (title_text doc) @ msg_title_b @
             pageExcerpt (body_text doc) @ [0x22]"
    and "1000 \<le> length (body_text doc) \<Longrightarrow> trim (error_text doc) = [] \<Longrightarrow>
         trim (title_text doc) = [] \<or> trim (title_text doc) = js ''Ping0.cc'' \<Longrightarrow>
         trim (h1_text doc) \<noteq> [] \<Longrightarrow>
           no_ip_message doc =
             msg_h1_a @ trim (h1_text doc) @ msg_h1_b @ pageExcerpt (body_text doc) @ [0x22]"
    and "1000 \<le> length (body_text doc) \<Longrightarrow> trim (error_text doc) = [] \<Longrightarrow>
         trim (title_text doc) = [] \<or> trim (title_text doc) = js ''Ping0.cc'' \<Longrightarrow>
         trim (h1_text doc) = [] \<Longrightarrow>
           no_ip_message doc = msg_no_ip @ pageExcerpt (body_text doc) @ [0x22]"
  using assms by (auto simp: no_ip_message_def unmarked_def Let_def)

lemma no_ip_wait: "\<not> truthy (extract_ip wait_page)"
  by (simp add: extract_ip_def wait_page_def extractScriptVariables_def truthy_def
        split_head_def trim_def js_def)

lemma early_wait: "passes_early_checks wait_page"
  by (simp add: passes_early_checks_def wait_page_def markers js_def)

lemma unmarked_wait: "unmarked wait_page"
  by (simp add: unmarked_def marked_def wait_page_def markers js_def)

lemma wait_message:
  "no_ip_message wait_page =
     msg_short_page_a @ js ''11'' @ msg_short_page_b @ js ''Please wait'' @ [0x22]"
proof -
  have "length (body_text wait_page) = 11" "pageExcerpt (body_text wait_page) = js ''Please wait''"
    by (simp_all add: wait_page_def pageExcerpt_def js_def)
  then show ?thesis
    using no_ip_message_unmarked(1) [OF unmarked_wait] by (simp add: digits_11)
qed

lemma filler_facts: "length filler = 1000" "set filler = {0x61}"
  by (simp_all add: filler_def)

lemma no_ip_down: "\<not> truthy (extract_ip down_page)"
  by (simp add: extract_ip_def down_page_def extractScriptVariables_def truthy_def
        split_head_def trim_def)

lemma down_units:
  "set (html down_page) \<subseteq> {c. c < 0x80 \<and> c \<noteq> 0x62}"
  "set (body_text down_page) \<subseteq> {c. c < 0x80 \<and> c \<noteq> 0x62}"
  by (simp_all add: down_page_def js_def filler_facts)

lemma not_in_down:
  assumes "c \<in> set m" and "0x80 \<le> c \<or> c = 0x62"
  shows "\<not> js_includes (html down_page) m \<and> \<not> js_includes (body_text down_page) m"
proof -
  have "\<forall>x \<in> set (html down_page). x < 0x80 \<and> x \<noteq> 0x62"
    and "\<forall>x \<in> set (body_text down_page). x < 0x80 \<and> x \<noteq> 0x62"
    using down_units by blast+
  with assms(2) have "c \<notin> set (html down_page)" and "c \<notin> set (body_text down_page)"
    by fastforce+
  with assms(1) show ?thesis
    by (simp add: js_includes_missing)
qed

lemma early_down: "passes_early_checks down_page"
proof -
  have "\<not> js_includes (html down_page) marker_system_error"
    using not_in_down [where c = "0x7CFB" and m = marker_system_error] by (simp add: markers)
  moreover have "html down_page \<noteq> []" "title_text down_page = []"
    by (simp_all add: down_page_def js_def)
  ultimately show ?thesis
    by (simp add: passes_early_checks_def markers js_def)
qed

lemma unmarked_down: "unmarked down_page"
proof -
  have "\<not> marked down_page marker_rate_limited"
    unfolding marked_def using not_in_down [where c = "0x8BBF" and m = marker_rate_limited]
    by (simp add: markers)
  moreover have "\<not> marked down_page marker_system_error"
    unfolding marked_def using not_in_down [where c = "0x7CFB" and m = marker_system_error]
    by (simp add: markers)
  moreover have "\<not> marked down_page marker_unreachable"
    unfolding marked_def using not_in_down [where c = "0x65E0" and m = marker_unreachable]
    by (simp add: markers)
  moreover have "\<not> marked down_page marker_ip_not_found"
    unfolding marked_def using not_in_down [where c = "0x67E5" and m = marker_ip_not_found]
    by (simp add: markers)
  moreover have "\<not> marked down_page marker_access_denied"
    unfolding marked_def using not_in_down [where c = "0x8BBF" and m = marker_access_denied]
    by (simp add: markers)
  moreover have "\<not> marked down_page (js ''robots'')"
    unfolding marked_def using not_in_down [where c = "0x62" and m = "js ''robots''"]
    by (simp add: js_def)
  moreover have "\<not> js_includes (body_text down_page) marker_robot"
    using not_in_down [where c = "0x673A" and m = marker_robot] by (simp add: markers)
  ultimately show ?thesis by (simp add: unmarked_def)
qed

lemma body_down: "length (body_text down_page) = 1012"
  by (simp add: down_page_def js_def filler_facts)

lemma excerpt_down: "length (pageExcerpt (body_text down_page)) = 150"
  by (simp add: pageExcerpt_def substring0_def body_down js_def)

lemma down_message:
  "no_ip_message down_page = msg_error_text @ js ''Service down'' @ [0x22]"
proof -
  have "trim (error_text down_page) = js ''Service down''"
    by (simp add: down_page_def trim_def is_ws_def js_def)
  then show ?thesis
    using no_ip_message_unmarked(2) [OF unmarked_down] body_down by (simp add: js_def)
qed

lemma busy_facts:
  "\<not> truthy (extract_ip busy_page)" "passes_early_checks busy_page"
  "marked busy_page marker_rate_limited"
  by (simp_all add: extract_ip_def busy_page_def extractScriptVariables_def
        passes_early_checks_def marked_def markers string_eval)

text \<open>
  Claim C5, as stated, fails. On a page without an IP, without a marker and with a body
  text of 1012 units, the text of an element of class \<open>alert\<close> is reported alone: the
  message carries no excerpt of the body. And on a short page the message carries the
  length and the excerpt only, not the title.
\<close>

theorem no_ip_message_counterexample:
  "parseHtmlResponse Some down_page = Inl (msg_error_text @ js ''Service down'' @ [0x22]) \<and>
   \<not> js_includes (msg_error_text @ js ''Service down'' @ [0x22])
       (pageExcerpt (body_text down_page)) \<and>
   parseHtmlResponse Some wait_page =
     Inl (msg_short_page_a @ js ''11'' @ msg_short_page_b @ js ''Please wait'' @ [0x22]) \<and>
   \<not> js_includes (msg_short_page_a @ js ''11'' @ msg_short_page_b @ js ''Please wait'' @ [0x22])
       (js ''Maintenance'')"
proof -
  have a: "parseHtmlResponse Some down_page = Inl (msg_error_text @ js ''Service down'' @ [0x22])"
    using parse_no_ip [OF no_ip_down early_down] down_message by simp
  have "length (msg_error_text @ js ''Service down'' @ [0x22]) < 150"
    by (simp add: msg_error_text_def js_def)
  then have b: "\<not> js_includes (msg_error_text @ js ''Service down'' @ [0x22])
       (pageExcerpt (body_text down_page))"
    using js_includes_length [of "msg_error_text @ js ''Service down'' @ [0x22]"
        "pageExcerpt (body_text down_page)"] excerpt_down
    by auto
  have c: "parseHtmlResponse Some wait_page =
     Inl (msg_short_page_a @ js ''11'' @ msg_short_page_b @ js ''Please wait'' @ [0x22])"
    using parse_no_ip [OF no_ip_wait early_wait] wait_message by simp
  have "0x4D \<in> set (js ''Maintenance'')"
    "0x4D \<notin> set (msg_short_page_a @ js ''11'' @ msg_short_page_b @ js ''Please wait'' @ [0x22])"
    by (simp_all add: msg_short_page_a_def msg_short_page_b_def js_def)
  then have d: "\<not> js_includes
       (msg_short_page_a @ js ''11'' @ msg_short_page_b @ js ''Please wait'' @ [0x22])
       (js ''Maintenance'')"
    by (rule js_includes_missing)
  from a b c d show ?thesis by blast
qed

text \<open>
  Claim C5, amended. When no IP is found \<open>parseHtmlResponse\<close> raises an error, and the
  excerpt of the body text has at most 150 units. When the text passes the checks made
  before the extraction, the message is the one of the first marker that occurs, in the
  order rate-limited, system error, unreachable, IP not found, access denied, robot.
  When no marker occurs: for a body text of fewer than 1000 units, the length and the
  excerpt; else the trimmed text of the error-styled elements alone, if not empty; else
  the trimmed title with the excerpt, if the title is neither empty nor \<open>Ping0.cc\<close>;
  else the trimmed text of the headings with the excerpt, if not empty; else the
  excerpt alone.
\<close>

theorem no_ip_raises:
  assumes "\<not> truthy (extract_ip doc)"
  shows "(\<exists>msg. parseHtmlResponse decode doc = Inl msg) \<and>
         length (pageExcerpt (body_text doc)) \<le> 150 \<and>
         (passes_early_checks doc \<longrightarrow>
            parseHtmlResponse decode doc = Inl (no_ip_message doc) \<and>
            (marked doc marker_rate_limited \<longrightarrow> no_ip_message doc = msg_rate_limited) \<and>
            (\<not> marked doc marker_rate_limited \<and> marked doc marker_system_error \<longrightarrow>
               no_ip_message doc = msg_system_error) \<and>
            (\<not> marked doc marker_rate_limited \<and> \<not> marked doc marker_system_error \<and>
             marked doc marker_unreachable \<longrightarrow> no_ip_message doc = msg_unreachable) \<and>
            (\<not> marked doc marker_rate_limited \<and> \<not> marked doc marker_system_error \<and>
             \<not> marked doc marker_unreachable \<and> marked doc marker_ip_not_found \<longrightarrow>
               no_ip_message doc = msg_ip_not_found) \<and>
            (\<not> marked doc marker_rate_limited \<and> \<not> marked doc marker_system_error \<and>
             \<not> marked doc marker_unreachable \<and> \<not> marked doc marker_ip_not_found \<and>
             marked doc marker_access_denied \<longrightarrow> no_ip_message doc = msg_access_denied) \<and>
            (\<not> marked doc marker_rate_limited \<and> \<not> marked doc marker_system_error \<and>
             \<not> marked doc marker_unreachable \<and> \<not> marked doc marker_ip_not_found \<and>
             \<not> marked doc marker_access_denied \<and>
             (marked doc (js ''robots'') \<or> js_includes (body_text doc) marker_robot) \<longrightarrow>
               no_ip_message doc = msg_robot) \<and>
            (unmarked doc \<and> length (body_text doc) < 1000 \<longrightarrow>
               no_ip_message doc =
                 msg_short_page_a @ digits (length (body_text doc)) @ msg_short_page_b @
                 pageExcerpt (body_text doc) @ [0x22]) \<and>
            (unmarked doc \<and> 1000 \<le> length (body_text doc) \<and> trim (error_text doc) \<noteq> [] \<longrightarrow>
               no_ip_message doc = msg_error_text @ trim (error_text doc) @ [0x22]) \<and>
            (unmarked doc \<and> 1000 \<le> length (body_text doc) \<and> trim (error_text doc) = [] \<and>
             trim (title_text doc) \<noteq> [] \<and> trim (title_text doc) \<noteq> js ''Ping0.cc'' \<longrightarrow>
               no_ip_message doc =
                 msg_title_a @ trim (title_text doc) @ msg_title_b @
                 pageExcerpt (body_text doc) @ [0x22]) \<and>
            (unmarked doc \<and> 1000 \<le> length (body_text doc) \<and> trim (error_text doc) = [] \<and>
             (trim (title_text doc) = [] \<or> trim (title_text doc) = js ''Ping0.cc'') \<and>
             trim (h1_text doc) \<noteq> [] \<longrightarrow>
               no_ip_message doc =
                 msg_h1_a @ trim (h1_text doc) @ msg_h1_b @
                 pageExcerpt (body_text doc) @ [0x22]) \<and>
            (unmarked doc \<and> 1000 \<le> length (body_text doc) \<and> trim (error_text doc) = [] \<and>
             (trim (title_text doc) = [] \<or> trim (title_text doc) = js ''Ping0.cc'') \<and>
             trim (h1_text doc) = [] \<longrightarrow>
               no_ip_message doc = msg_no_ip @ pageExcerpt (body_text doc) @ [0x22]))"
proof (intro conjI impI)
  show "\<exists>msg. parseHtmlResponse decode doc = Inl msg"
    using assms by (rule parse_raises)
  show "length (pageExcerpt (body_text doc)) \<le> 150"
    by (rule excerpt_bound)
  show "parseHtmlResponse decode doc = Inl (no_ip_message doc)" if "passes_early_checks doc"
    using assms that by (rule parse_no_ip)
qed (simp_all add: no_ip_message_marked no_ip_message_unmarked)

theorem no_ip_raises_witness:
  "\<not> truthy (extract_ip busy_page) \<and> passes_early_checks busy_page \<and>
   marked busy_page marker_rate_limited \<and>
   parseHtmlResponse Some busy_page = Inl msg_rate_limited \<and>
   \<not> truthy (extract_ip wait_page) \<and> passes_early_checks wait_page \<and> unmarked wait_page \<and>
   length (body_text wait_page) < 1000 \<and>
   parseHtmlResponse Some wait_page =
     Inl (msg_short_page_a @ digits (length (body_text wait_page)) @ msg_short_page_b @
          pageExcerpt (body_text wait_page) @ [0x22])"
proof -
  have "length (body_text wait_page) < 1000"
    by (simp add: wait_page_def js_def)
  then show ?thesis
    using busy_facts no_ip_wait early_wait unmarked_wait
      no_ip_raises [OF busy_facts(1), of Some] no_ip_raises [OF no_ip_wait, of Some]
    by simp
qed

subsection \<open>Owner and types\<close>

lemma extract_owner_last:
  "regions \<noteq> [] \<Longrightarrow>
     extract_owner decode regions =
       (Some (owner_of decode (last regions)), Some (types_of (last regions)))"
  by (induction regions rule: rev_induct) (simp_all add: extract_owner_def)

lemma types_of_join: "types_of e = join (js ''; '') (label_texts e)"
  by (simp add: types_of_def)

lemma owner_of_cut:
  "owner_of decode e =
     decodeHTMLEntities decode
       (if 0x2014 \<in> set (trim (text_of (remove_labels e)))
        then trim (takeWhile (\<lambda>c. c \<noteq> 0x2014) (trim (text_of (remove_labels e))))
        else trim (text_of (remove_labels e)))"
  by (simp add: owner_of_def indexOf_def substring0_def Let_def takeWhile_eq_take [symmetric])

lemma is_label_remove_labels: "is_label (remove_labels n) = is_label n"
  by (cases n) (simp_all add: is_label_def)

lemma find_labels_removed: "find_labels (remove_labels e) = []"
  by (induction e rule: remove_labels.induct) (simp_all add: is_label_remove_labels)

lemma org_scripts:
  "extractScriptVariables (script_html org_page) =
     [js ''window.ip'' \<mapsto> js ''1.1.1.1'', js ''window.loc'' \<mapsto> js ''Example City'']"
  by (simp add: org_page_def extractScriptVariables_def varNames_def scan_variable_def
        match_script_value_def string_eval)

lemma org_ip: "extract_ip org_page = Some (js ''1.1.1.1'')"
  by (simp add: extract_ip_def org_scripts Let_def truthy_def) (simp add: js_def)

lemma org_early: "passes_early_checks org_page"
  by (simp add: passes_early_checks_def org_page_def markers js_def)

lemma org_regions:
  "orgname_content org_page \<noteq> []" "last (orgname_content org_page) = owner_region"
  "asnname_content org_page \<noteq> []" "last (asnname_content org_page) = owner_region"
  by (simp_all add: org_page_def)

lemma owner_region_read:
  "trim (text_of (remove_labels owner_region)) = js ''Example Org '' @ [0x2014] @ js '' legacy''"
  "map text_of (find_labels owner_region) = [js ''ISP'', js ''Business'']"
  by (simp_all add: owner_region_def is_label_def string_eval)

lemma org_parse:
  "parseHtmlResponse Some org_page =
     Inr \<lparr>ip = Some (js ''1.1.1.1''), ip_location = Some (js ''Example City''),
           country_flag = None, asn = None,
           asn_owner = Some (js ''Example Org''), asn_type = Some (js ''ISP; Business''),
           organization = Some (js ''Example Org''), org_type = Some (js ''ISP; Business''),
           longitude = None, latitude = None, ip_type = None, risk_value = None,
           native_ip = None, princess = Some attribution\<rparr>"
proof -
  have a: "html org_page \<noteq> []" "\<not> js_includes (html org_page) marker_system_error"
    "\<not> js_includes (title_text org_page) marker_system_error"
    "\<not> js_includes (title_text org_page) (js ''Error'')"
    using org_early by (simp_all add: passes_early_checks_def)
  have b: "extract_location Some org_page = Some (js ''Example City'')"
    by (simp add: extract_location_def org_scripts Let_def truthy_def decodeHTMLEntities_def)
       (simp add: js_def)
  have c: "extract_owner Some [owner_region] =
      (Some (js ''Example Org''), Some (js ''ISP; Business''))"
    by (simp add: owner_region_def extract_owner_def owner_of_def types_of_def label_texts_def
          is_label_def decodeHTMLEntities_def string_eval)
  have d: "extract_coordinate (js ''window.longitude'') label_longitude org_page = None"
    "extract_coordinate (js ''window.latitude'') label_latitude org_page = None"
    by (simp_all add: extract_coordinate_def org_scripts Let_def truthy_def)
       (simp_all add: js_def org_page_def trim_def label_longitude_def label_latitude_def)
  have e: "extract_flag org_page = None" "extract_asn org_page = None"
    "extract_ip_type org_page = None" "extract_risk org_page = None"
    "extract_native_ip org_page = None"
    "asnname_content org_page = [owner_region]" "orgname_content org_page = [owner_region]"
    by (simp_all add: org_page_def extract_flag_def extract_asn_def
          extract_ip_type_def ipTypes_def extract_risk_def extract_native_ip_def)
  show ?thesis
    by (simp add: parseHtmlResponse_def a b c d e org_ip truthy_def Let_def) (simp add: js_def)
qed

lemma entity_regions:
  "orgname_content entity_page \<noteq> []" "last (orgname_content entity_page) = entity_region"
  by (simp_all add: entity_page_def)

lemma entity_region_read:
  "trim (text_of (remove_labels entity_region)) = js ''Tom &amp; Co '' @ [0x2014] @ js '' old''"
  "map text_of (find_labels entity_region) = [js ''Hosting'']"
  by (simp_all add: entity_region_def is_label_def string_eval)

lemma entity_cut:
  "trim (takeWhile (\<lambda>c. c \<noteq> 0x2014) (js ''Tom &amp; Co '' @ [0x2014] @ js '' old'')) =
     js ''Tom &amp; Co''"
  by (simp add: string_eval)

lemma entity_decoded:
  "decode_amp (js ''Tom &amp; Co'') = Some (js ''Tom & Co'')"
  "decode_throws (js ''Tom &amp; Co'') = None"
  by (simp_all add: decode_amp_def decode_throws_def js_def)

lemma entity_parse:
  "parseHtmlResponse decode_amp entity_page =
     Inr (no_keys\<lparr>ip := Some (js ''1.1.1.1''), organization := Some (js ''Tom & Co''),
                  org_type := Some (js ''Hosting''), princess := Some attribution\<rparr>)"
  "parseHtmlResponse decode_throws entity_page =
     Inr (no_keys\<lparr>ip := Some (js ''1.1.1.1''), organization := Some (js ''Tom &amp; Co''),
                  org_type := Some (js ''Hosting''), princess := Some attribution\<rparr>)"
  by (simp_all add: entity_page_def entity_region_def owner_region_def decode_amp_def
        decode_throws_def parse_eval)

text \<open>
  Claim C6. In a returned record the organisation (the ASN owner) comes from the last
  organisation (ASN-owner) region \<open>e\<close>: the labels are removed from it, no label is
  left in what is read, and the remaining text is trimmed, cut at its first em-dash if it
  has one, and trimmed again. The field holds what the decoder returns for this text; it
  holds the text itself when the decoder throws, and the empty string, which is not
  passed to the decoder, when nothing is left. The type is the non-empty trimmed texts
  of the labels of \<open>e\<close> joined with \<open>; \<close>, the empty string when \<open>e\<close> has no
  label. The witness is the example, for both regions: the owner text \<open>Example Org\<close>,
  an em-dash and \<open>legacy\<close>, with the labels \<open>ISP\<close> and \<open>Business\<close>, gives
  \<open>Example Org\<close> and \<open>ISP; Business\<close>; and a page whose last organisation region
  reads \<open>Tom &amp; Co\<close>, an em-dash and \<open>old\<close>, which gives \<open>Tom & Co\<close> with a
  decoder that knows the reference and \<open>Tom &amp; Co\<close> with one that throws.
\<close>

theorem owner_and_types:
  assumes "parseHtmlResponse decode doc = Inr r"
    and "regions = orgname_content doc \<and> entry = (organization r, org_type r) \<or>
         regions = asnname_content doc \<and> entry = (asn_owner r, asn_type r)"
    and "regions \<noteq> []" and "e = last regions"
    and "t = trim (text_of (remove_labels e))"
    and "owner = (if 0x2014 \<in> set t then trim (takeWhile (\<lambda>c. c \<noteq> 0x2014) t) else t)"
  shows "find_labels (remove_labels e) = [] \<and>
         fst entry =
           Some (if owner = [] then []
                 else (case decode owner of Some decoded \<Rightarrow> decoded | None \<Rightarrow> owner)) \<and>
         snd entry =
           Some (join (js ''; '')
                   (filter (\<lambda>x. x \<noteq> []) (map (\<lambda>l. trim (text_of l)) (find_labels e)))) \<and>
         (find_labels e = [] \<longrightarrow> snd entry = Some [])"
proof -
  have "entry = extract_owner decode regions"
    using assms(2) parse_returns(1) [OF assms(1)] by auto
  then have f: "entry = (Some (owner_of decode e), Some (types_of e))"
    using assms(3,4) by (simp add: extract_owner_last)
  have "owner_of decode e = decodeHTMLEntities decode owner"
    unfolding assms(6) assms(5) by (rule owner_of_cut)
  then have "fst entry =
      Some (if owner = [] then []
            else (case decode owner of Some decoded \<Rightarrow> decoded | None \<Rightarrow> owner))"
    using f by (simp add: decodeHTMLEntities_def)
  moreover have "snd entry =
      Some (join (js ''; '')
              (filter (\<lambda>x. x \<noteq> []) (map (\<lambda>l. trim (text_of l)) (find_labels e))))"
    using f by (simp add: types_of_join label_texts_def)
  ultimately show ?thesis
    by (simp add: find_labels_removed)
qed

theorem owner_and_types_witness:
  "parseHtmlResponse Some org_page =
     Inr \<lparr>ip = Some (js ''1.1.1.1''), ip_location = Some (js ''Example City''),
           country_flag = None, asn = None,
           asn_owner = Some (js ''Example Org''), asn_type = Some (js ''ISP; Business''),
           organization = Some (js ''Example Org''), org_type = Some (js ''ISP; Business''),
           longitude = None, latitude = None, ip_type = None, risk_value = None,
           native_ip = None, princess = Some attribution\<rparr> \<and>
   orgname_content org_page \<noteq> [] \<and> last (orgname_content org_page) = owner_region \<and>
   asnname_content org_page \<noteq> [] \<and> last (asnname_content org_page) = owner_region \<and>
   find_labels (remove_labels owner_region) = [] \<and>
   trim (text_of (remove_labels owner_region)) =
     js ''Example Org '' @ [0x2014] @ js '' legacy'' \<and>
   map text_of (find_labels owner_region) = [js ''ISP'', js ''Business''] \<and>
   parseHtmlResponse decode_amp entity_page =
     Inr (no_keys\<lparr>ip := Some (js ''1.1.1.1''), organization := Some (js ''Tom & Co''),
                  org_type := Some (js ''Hosting''), princess := Some attribution\<rparr>) \<and>
   parseHtmlResponse decode_throws entity_page =
     Inr (no_keys\<lparr>ip := Some (js ''1.1.1.1''), organization := Some (js ''Tom &amp; Co''),
                  org_type := Some (js ''Hosting''), princess := Some attribution\<rparr>) \<and>
   orgname_content entity_page \<noteq> [] \<and> last (orgname_content entity_page) = entity_region \<and>
   trim (text_of (remove_labels entity_region)) =
     js ''Tom &amp; Co '' @ [0x2014] @ js '' old'' \<and>
   map text_of (find_labels entity_region) = [js ''Hosting''] \<and>
   trim (takeWhile (\<lambda>c. c \<noteq> 0x2014) (js ''Tom &amp; Co '' @ [0x2014] @ js '' old'')) =
     js ''Tom &amp; Co'' \<and>
   decode_amp (js ''Tom &amp; Co'') = Some (js ''Tom & Co'') \<and>
   decode_throws (js ''Tom &amp; Co'') = None"
proof -
  have o: "owner_region = last (orgname_content org_page)"
    and a: "owner_region = last (asnname_content org_page)"
    and n: "entity_region = last (orgname_content entity_page)"
    by (simp_all add: org_regions entity_regions)
  show ?thesis
    using org_parse org_regions owner_region_read entity_parse entity_regions
      entity_region_read entity_cut entity_decoded
      owner_and_types [OF org_parse _ org_regions(1) o refl refl,
        of "(Some (js ''Example Org''), Some (js ''ISP; Business''))"]
      owner_and_types [OF org_parse _ org_regions(3) a refl refl,
        of "(Some (js ''Example Org''), Some (js ''ISP; Business''))"]
      owner_and_types [OF entity_parse(1) _ entity_regions(1) n refl refl,
        of "(Some (js ''Tom & Co''), Some (js ''Hosting''))"]
      owner_and_types [OF entity_parse(2) _ entity_regions(1) n refl refl,
        of "(Some (js ''Tom &amp; Co''), Some (js ''Hosting''))"]
    by simp
qed

subsection \<open>The IP type\<close>

lemma untyped_parse:
  "parseHtmlResponse Some untyped_page =
     Inr (no_keys\<lparr>ip := Some (js ''1.1.1.1''), organization := Some (js ''Example Org''),
                  org_type := Some [], princess := Some attribution\<rparr>)"
  by (simp add: untyped_page_def parse_eval)

lemma typed_parse:
  "parseHtmlResponse Some typed_page =
     Inr (no_keys\<lparr>ip := Some (js ''1.1.1.1''), organization := Some (js ''Example Org''),
                  org_type := Some [], ip_type := Some (js ''IDC; Native''),
                  princess := Some attribution\<rparr>)"
  by (simp add: typed_page_def parse_eval)

text \<open>
  Claim C10. In a returned record the key \<open>ip_type\<close> is absent when the document has no
  IP-type label; when the key is present there is such a label and the value is the
  non-empty trimmed label texts joined with \<open>; \<close>. The keys \<open>asn_type\<close> and
  \<open>org_type\<close> are present and empty when their region exists and has no label.
\<close>

theorem ip_type_key:
  assumes "parseHtmlResponse decode doc = Inr r"
  shows "(iptype_label_text doc = [] \<longrightarrow> ip_type r = None) \<and>
         (ip_type r \<noteq> None \<longrightarrow>
            iptype_label_text doc \<noteq> [] \<and>
            ip_type r =
              Some (join (js ''; '')
                      (filter (\<lambda>t. t \<noteq> []) (map trim (iptype_label_text doc))))) \<and>
         (asnname_content doc \<noteq> [] \<and> find_labels (last (asnname_content doc)) = [] \<longrightarrow>
            asn_type r = Some []) \<and>
         (orgname_content doc \<noteq> [] \<and> find_labels (last (orgname_content doc)) = [] \<longrightarrow>
            org_type r = Some [])"
proof -
  have t: "ip_type r = extract_ip_type doc"
    and a: "asn_type r = snd (extract_owner decode (asnname_content doc))"
    and b: "org_type r = snd (extract_owner decode (orgname_content doc))"
    using parse_returns(1) [OF assms] by simp_all
  have "iptype_label_text doc = [] \<longrightarrow> ip_type r = None"
    using t by (simp add: extract_ip_type_def ipTypes_def)
  moreover have "ip_type r \<noteq> None \<longrightarrow>
      iptype_label_text doc \<noteq> [] \<and>
      ip_type r =
        Some (join (js ''; '') (filter (\<lambda>t. t \<noteq> []) (map trim (iptype_label_text doc))))"
    using t by (auto simp: extract_ip_type_def ipTypes_def split: if_splits)
  moreover have "asnname_content doc \<noteq> [] \<and> find_labels (last (asnname_content doc)) = [] \<longrightarrow>
      asn_type r = Some []"
    using a by (simp add: extract_owner_last types_of_def label_texts_def)
  moreover have "orgname_content doc \<noteq> [] \<and> find_labels (last (orgname_content doc)) = [] \<longrightarrow>
      org_type r = Some []"
    using b by (simp add: extract_owner_last types_of_def label_texts_def)
  ultimately show ?thesis by simp
qed

theorem ip_type_key_witness:
  "parseHtmlResponse Some untyped_page =
     Inr (no_keys\<lparr>ip := Some (js ''1.1.1.1''), organization := Some (js ''Example Org''),
                  org_type := Some [], princess := Some attribution\<rparr>) \<and>
   iptype_label_text untyped_page = [] \<and>
   orgname_content untyped_page \<noteq> [] \<and>
   find_labels (last (orgname_content untyped_page)) = [] \<and>
   ip_type (no_keys\<lparr>ip := Some (js ''1.1.1.1''), organization := Some (js ''Example Org''),
                    org_type := Some [], princess := Some attribution\<rparr>) = None \<and>
   org_type (no_keys\<lparr>ip := Some (js ''1.1.1.1''), organization := Some (js ''Example Org''),
                    org_type := Some [], princess := Some attribution\<rparr>) = Some [] \<and>
   parseHtmlResponse Some typed_page =
     Inr (no_keys\<lparr>ip := Some (js ''1.1.1.1''), organization := Some (js ''Example Org''),
                  org_type := Some [], ip_type := Some (js ''IDC; Native''),
                  princess := Some attribution\<rparr>) \<and>
   iptype_label_text typed_page \<noteq> []"
proof -
  have a: "iptype_label_text untyped_page = []" "orgname_content untyped_page \<noteq> []"
    "find_labels (last (orgname_content untyped_page)) = []"
    "iptype_label_text typed_page \<noteq> []"
    by (simp_all add: untyped_page_def typed_page_def is_label_def)
  show ?thesis
    using a untyped_parse typed_parse ip_type_key [OF untyped_parse] ip_type_key [OF typed_parse]
    by simp
qed

end
